theory Spec2Isabelle
  imports Complex_Main "HOL-Library.AList"
begin

section \<open>Python values used by SeleniumBookScraper.py\<close>

text \<open>
  A Python \<open>str\<close> is a sequence of code points. It is modelled as a \<open>string\<close> whose
  characters are the code points U+0000 .. U+00FF, so the pound sign is \<open>CHR 0xA3\<close> and
  the capital A with circumflex is \<open>CHR 0xC2\<close>; code points above U+00FF are outside the model.

  An exception is an instance of a subclass of \<open>Exception\<close>: the name of its class and the
  text \<open>str(e)\<close> that the handlers of the program put into their log lines.
\<close>

datatype pyexn = PyExn (exn_class: string) (exn_msg: string)

text \<open>
  A Python \<open>float\<close>. A finite value is kept as the exact number its literal denotes; the
  rounding to binary64 is not modelled (it keeps the sign).
\<close>

datatype pyfloat = Finite rat | PosInf | NegInf | NaN

datatype pyvalue = VStr string | VFloat pyfloat

text \<open>A dict with \<open>str\<close> keys, in insertion order.\<close>

type_synonym book = "(string \<times> pyvalue) list"

subsection \<open>\<open>str\<close> methods\<close>

definition pound :: char where
  "pound = CHR 0xA3"

definition a_circumflex :: char where
  "a_circumflex = CHR 0xC2"

text \<open>\<open>str.isspace\<close> on one code point below U+0100.\<close>

definition is_space :: "char \<Rightarrow> bool" where
  "is_space c = ((of_char c :: nat) \<in> set [9, 10, 11, 12, 13, 28, 29, 30, 31, 32, 133, 160])"

text \<open>\<open>s.strip()\<close>\<close>

definition strip :: "string \<Rightarrow> string" where
  "strip s = rev (dropWhile is_space (rev (dropWhile is_space s)))"

text \<open>\<open>s.replace(c, '')\<close> for a one-character \<open>c\<close>\<close>

definition replace_char_empty :: "char \<Rightarrow> string \<Rightarrow> string" where
  "replace_char_empty c s = filter (\<lambda>x. x \<noteq> c) s"

definition digit_char :: "nat \<Rightarrow> char" where
  "digit_char n = char_of (48 + n)"

fun str_of_nat :: "nat \<Rightarrow> string" where
  "str_of_nat n = (if n < 10 then [digit_char n] else str_of_nat (n div 10) @ [digit_char (n mod 10)])"

declare str_of_nat.simps [simp del]

text \<open>\<open>str(i)\<close> of an \<open>int\<close>, as an f-string formats a page number.\<close>

definition str_of_int :: "int \<Rightarrow> string" where
  "str_of_int i = (if i < 0 then CHR ''-'' # str_of_nat (nat (- i)) else str_of_nat (nat i))"

subsection \<open>\<open>float(s)\<close>\<close>

text \<open>
  The grammar of the language reference, on a stripped string:
  \<^verbatim>\<open>
  digitpart     ::= digit (["_"] digit)*
  number        ::= [digitpart] "." digitpart | digitpart ["."]
  exponent      ::= ("e" | "E") [sign] digitpart
  floatnumber   ::= number [exponent]
  absfloatvalue ::= floatnumber | infinity | nan
  floatvalue    ::= [sign] absfloatvalue
  \<close>
  with \<open>inf\<close>, \<open>infinity\<close> and \<open>nan\<close> in any letter case. Anything else raises ValueError.
\<close>

definition is_digit :: "char \<Rightarrow> bool" where
  "is_digit c = (48 \<le> (of_char c :: nat) \<and> (of_char c :: nat) \<le> 57)"

definition digit_val :: "char \<Rightarrow> nat" where
  "digit_val c = of_char c - 48"

text \<open>The rest of a digitpart: the value so far, the number of digits so far, the input.\<close>

fun digits_tail :: "nat \<Rightarrow> nat \<Rightarrow> string \<Rightarrow> nat \<times> nat \<times> string" where
  "digits_tail v k [] = (v, k, [])"
| "digits_tail v k [c] =
     (if is_digit c then (v * 10 + digit_val c, Suc k, []) else (v, k, [c]))"
| "digits_tail v k (c # d # cs) =
     (if is_digit c then digits_tail (v * 10 + digit_val c) (Suc k) (d # cs)
      else if c = CHR ''_'' \<and> is_digit d then digits_tail (v * 10 + digit_val d) (Suc k) cs
      else (v, k, c # d # cs))"

definition digitpart :: "string \<Rightarrow> (nat \<times> nat \<times> string) option" where
  "digitpart s =
     (case s of
        [] \<Rightarrow> None
      | c # cs \<Rightarrow> if is_digit c then Some (digits_tail (digit_val c) 1 cs) else None)"

definition fraction :: "nat \<Rightarrow> nat \<Rightarrow> rat" where
  "fraction fp k = of_nat fp / 10 ^ k"

definition number :: "string \<Rightarrow> (rat \<times> string) option" where
  "number s =
     (case digitpart s of
        Some (ip, n, r) \<Rightarrow>
          (case r of
             [] \<Rightarrow> Some (of_nat ip, r)
           | c # r1 \<Rightarrow>
               if c = CHR ''.'' then
                 (case digitpart r1 of
                    Some (fp, k, r2) \<Rightarrow> Some (of_nat ip + fraction fp k, r2)
                  | None \<Rightarrow> Some (of_nat ip, r1))
               else Some (of_nat ip, r))
      | None \<Rightarrow>
          (case s of
             [] \<Rightarrow> None
           | c # r1 \<Rightarrow>
               if c = CHR ''.'' then
                 (case digitpart r1 of
                    Some (fp, k, r2) \<Rightarrow> Some (fraction fp k, r2)
                  | None \<Rightarrow> None)
               else None))"

text \<open>What follows the number: nothing, or an exponent up to the end of the string.\<close>

definition whole_digitpart :: "string \<Rightarrow> nat option" where
  "whole_digitpart s =
     (case digitpart s of
        Some (v, k, r) \<Rightarrow> if r = [] then Some v else None
      | None \<Rightarrow> None)"

definition exponent :: "string \<Rightarrow> int option" where
  "exponent r =
     (case r of
        [] \<Rightarrow> Some 0
      | c # r1 \<Rightarrow>
          if c = CHR ''e'' \<or> c = CHR ''E'' then
            (case r1 of
               [] \<Rightarrow> None
             | d # r2 \<Rightarrow>
                 if d = CHR ''-'' then map_option (\<lambda>n. - int n) (whole_digitpart r2)
                 else if d = CHR ''+'' then map_option int (whole_digitpart r2)
                 else map_option int (whole_digitpart r1))
          else None)"

definition scale10 :: "rat \<Rightarrow> int \<Rightarrow> rat" where
  "scale10 m e = (if 0 \<le> e then m * 10 ^ nat e else m / 10 ^ nat (- e))"

definition ascii_lower :: "char \<Rightarrow> char" where
  "ascii_lower c =
     (if 65 \<le> (of_char c :: nat) \<and> (of_char c :: nat) \<le> 90 then char_of (of_char c + 32 :: nat) else c)"

definition absfloatvalue :: "string \<Rightarrow> pyfloat option" where
  "absfloatvalue s =
     (if map ascii_lower s = ''inf'' \<or> map ascii_lower s = ''infinity'' then Some PosInf
      else if map ascii_lower s = ''nan'' then Some NaN
      else
        (case number s of
           None \<Rightarrow> None
         | Some (m, r) \<Rightarrow>
             (case exponent r of
                None \<Rightarrow> None
              | Some e \<Rightarrow> Some (Finite (scale10 m e)))))"

fun negate :: "pyfloat \<Rightarrow> pyfloat" where
  "negate (Finite q) = Finite (- q)"
| "negate PosInf = NegInf"
| "negate NegInf = PosInf"
| "negate NaN = NaN"

text \<open>The message of the ValueError quotes the argument (the escapes of \<open>repr\<close> are left out).\<close>

definition float_error :: "string \<Rightarrow> pyexn" where
  "float_error s = PyExn ''ValueError'' (''could not convert string to float: '' @ [CHR 0x27] @ s @ [CHR 0x27])"

definition float_of_str :: "string \<Rightarrow> pyexn + pyfloat" where
  "float_of_str s =
     (case strip s of
        [] \<Rightarrow> Inl (float_error s)
      | c # r \<Rightarrow>
          if c = CHR ''-'' then
            (case absfloatvalue r of None \<Rightarrow> Inl (float_error s) | Some v \<Rightarrow> Inr (negate v))
          else if c = CHR ''+'' then
            (case absfloatvalue r of None \<Rightarrow> Inl (float_error s) | Some v \<Rightarrow> Inr v)
          else
            (case absfloatvalue (c # r) of None \<Rightarrow> Inl (float_error s) | Some v \<Rightarrow> Inr v))"

text \<open>\<open>x >= 0\<close> on a float: false for \<open>nan\<close>.\<close>

fun non_negative :: "pyfloat \<Rightarrow> bool" where
  "non_negative (Finite q) = (0 \<le> q)"
| "non_negative PosInf = True"
| "non_negative NegInf = False"
| "non_negative NaN = False"


section \<open>The scraper and the world around it\<close>

subsection \<open>State of a \<open>SeleniumBookScraper\<close> instance\<close>

datatype level = INFO | WARNING | ERROR

text \<open>
  The calls whose order matters to the properties below: \<open>driver.get(url)\<close>,
  \<open>driver.quit()\<close>, and the entry into \<open>scrape_page\<close>, \<open>save_to_csv\<close> and \<open>save_to_json\<close>
  (the two writers with the value of \<open>self.all_books\<close> they find).
\<close>

datatype event =
    Driver_get string
  | Driver_quit
  | Call_scrape_page int
  | Call_save_to_csv "book list"
  | Call_save_to_json "book list"

text \<open>
  \<open>all_books\<close> is the attribute of the instance; \<open>logs\<close> is what the logging module has
  received; \<open>files\<close> is the text of each file on disk; \<open>history\<close> is the list of calls so far.
\<close>

record state =
  all_books :: "book list"
  logs :: "(level \<times> string) list"
  files :: "string \<Rightarrow> string option"
  history :: "event list"

definition logging :: "level \<Rightarrow> string \<Rightarrow> state \<Rightarrow> state" where
  "logging l m s = s\<lparr>logs := logs s @ [(l, m)]\<rparr>"

definition record_call :: "event \<Rightarrow> state \<Rightarrow> state" where
  "record_call ev s = s\<lparr>history := history s @ [ev]\<rparr>"

definition base_url :: string where
  "base_url = ''https://books.toscrape.com/''"

definition catalogue_url :: string where
  "catalogue_url = ''https://books.toscrape.com/catalogue/''"

definition output_dir :: string where
  "output_dir = ''scraped_data''"

subsection \<open>What the browser, the markup parser and the file system answer\<close>

text \<open>
  One item summary block (\<open>.product_pod\<close>) of a listing page, as the five expressions of
  \<open>scrape_page\<close> see it: each one returns a value or raises (a missing tag gives
  AttributeError or TypeError, a missing attribute KeyError).
\<close>

record block =
  h3_a_title :: "pyexn + string"
  price_color_text :: "pyexn + string"
  availability_text :: "pyexn + string"
  p_class :: "pyexn + string list"
  h3_a_href :: "pyexn + string"

text \<open>
  The \<open>article.product_page\<close> element of a detail page, as the five expressions of
  \<open>scrape_book_details\<close> see it.
\<close>

record product_page =
  meta_description_content :: "pyexn + string"
  th_UPC_td_text :: "pyexn + string"
  th_Product_Type_td_text :: "pyexn + string"
  th_Tax_td_text :: "pyexn + string"
  th_Number_of_reviews_td_text :: "pyexn + string"

text \<open>
  The collaborators of the program, as functions of their arguments:
  \<^item> \<open>driver_get url\<close>: \<open>self.driver.get(url)\<close> returns (\<open>None\<close>) or raises;
  \<^item> \<open>wait_presence url cls\<close>: the \<open>WebDriverWait(...).until(presence_of_element_located(...))\<close>
    on the page loaded from \<open>url\<close> returns or raises (TimeoutException);
  \<^item> \<open>page_source url\<close>: \<open>self.driver.page_source\<close> of that page;
  \<^item> \<open>select_product_pod src\<close>: \<open>BeautifulSoup(src, 'lxml').select(".product_pod")\<close>;
  \<^item> \<open>find_product_page src\<close>: \<open>BeautifulSoup(src, 'lxml').find('article', class_='product_page')\<close>;
  \<^item> \<open>urljoin\<close>: \<open>urllib.parse.urljoin\<close>;
  \<^item> \<open>open_w path\<close>: \<open>open(path, "w", ...)\<close> returns a file or raises (OSError);
  \<^item> \<open>float_repr q\<close>: \<open>repr\<close> of the finite float \<open>q\<close>;
  \<^item> \<open>quit\<close>: \<open>self.driver.quit()\<close> returns or raises;
  \<^item> \<open>elapsed\<close>: the text of \<open>f"{elapsed_time:.2f}"\<close>.
\<close>

record world =
  driver_get :: "string \<Rightarrow> pyexn option"
  wait_presence :: "string \<Rightarrow> string \<Rightarrow> pyexn option"
  page_source :: "string \<Rightarrow> pyexn + string"
  select_product_pod :: "string \<Rightarrow> pyexn + block list"
  find_product_page :: "string \<Rightarrow> pyexn + product_page option"
  urljoin :: "string \<Rightarrow> string \<Rightarrow> pyexn + string"
  open_w :: "string \<Rightarrow> pyexn option"
  float_repr :: "rat \<Rightarrow> string"
  quit :: "pyexn option"
  elapsed :: string

text \<open>Sequencing of expressions that may raise.\<close>

definition then_exn :: "pyexn + 'a \<Rightarrow> ('a \<Rightarrow> pyexn + 'b) \<Rightarrow> pyexn + 'b" where
  "then_exn r f = (case r of Inl e \<Rightarrow> Inl e | Inr x \<Rightarrow> f x)"

subsection \<open>\<open>get_page\<close>\<close>

text \<open>
  Navigation, the bounded wait for an element of class \<open>marker\<close>, and the reading of
  \<open>driver.page_source\<close>, in this order: the first one that raises ends the sequence.
\<close>

definition fetch :: "world \<Rightarrow> string \<Rightarrow> string \<Rightarrow> pyexn + string" where
  "fetch w url marker =
     (case driver_get w url of
        Some e \<Rightarrow> Inl e
      | None \<Rightarrow>
          (case wait_presence w url marker of
             Some e \<Rightarrow> Inl e
           | None \<Rightarrow> page_source w url))"

text \<open>The body of the \<open>try\<close> (the sleep has no effect on the state).\<close>

definition get_page_try :: "world \<Rightarrow> string \<Rightarrow> state \<Rightarrow> (pyexn + string) \<times> state" where
  "get_page_try w url s = (fetch w url ''product_pod'', record_call (Driver_get url) s)"

text \<open>\<open>Inl e\<close>: the call raises \<open>e\<close>; \<open>Inr None\<close>: it returns \<open>None\<close>.\<close>

definition get_page :: "world \<Rightarrow> string \<Rightarrow> state \<Rightarrow> (pyexn + string option) \<times> state" where
  "get_page w url s =
     (case get_page_try w url s of
        (Inr src, s1) \<Rightarrow> (Inr (Some src), s1)
      | (Inl e, s1) \<Rightarrow>
          (Inr None, logging ERROR (''Failed to fetch '' @ url @ '': '' @ exn_msg e) s1))"

subsection \<open>\<open>scrape_book_details\<close>\<close>

definition details_dict :: "product_page \<Rightarrow> pyexn + book" where
  "details_dict pp =
     then_exn (meta_description_content pp) (\<lambda>content.
     let description = strip content in
     then_exn (th_UPC_td_text pp) (\<lambda>upc.
     then_exn (th_Product_Type_td_text pp) (\<lambda>product_type.
     then_exn (th_Tax_td_text pp) (\<lambda>tax.
     then_exn (th_Number_of_reviews_td_text pp) (\<lambda>reviews.
     Inr [(''description'', VStr description),
          (''upc'', VStr upc),
          (''product_type'', VStr product_type),
          (''tax'', VStr tax),
          (''reviews'', VStr reviews)])))))"

text \<open>What the body of the \<open>try\<close> returns or raises.\<close>

definition book_details_of :: "world \<Rightarrow> string \<Rightarrow> pyexn + book option" where
  "book_details_of w book_url =
     then_exn (fetch w book_url ''product_page'') (\<lambda>src.
     then_exn (find_product_page w src) (\<lambda>product_page.
       case product_page of
         None \<Rightarrow> Inr None
       | Some pp \<Rightarrow> then_exn (details_dict pp) (\<lambda>d. Inr (Some d))))"

definition scrape_book_details_try ::
  "world \<Rightarrow> string \<Rightarrow> state \<Rightarrow> (pyexn + book option) \<times> state" where
  "scrape_book_details_try w book_url s =
     (book_details_of w book_url, record_call (Driver_get book_url) s)"

definition scrape_book_details ::
  "world \<Rightarrow> string \<Rightarrow> state \<Rightarrow> (pyexn + book option) \<times> state" where
  "scrape_book_details w book_url s =
     (case scrape_book_details_try w book_url s of
        (Inr r, s1) \<Rightarrow> (Inr r, s1)
      | (Inl e, s1) \<Rightarrow>
          (Inr None,
           logging ERROR (''Error scraping book details from '' @ book_url @ '': '' @ exn_msg e) s1))"

subsection \<open>\<open>scrape_page\<close>\<close>

text \<open>\<open>xs[1]\<close>\<close>

definition index1 :: "'a list \<Rightarrow> pyexn + 'a" where
  "index1 xs =
     (if 1 < length xs then Inr (xs ! 1) else Inl (PyExn ''IndexError'' ''list index out of range''))"

text \<open>\<open>d.update(e)\<close>: a key of \<open>d\<close> keeps its place, a new key goes to the end.\<close>

definition dict_update :: "book \<Rightarrow> book \<Rightarrow> book" where
  "dict_update d e = foldl (\<lambda>acc (k, v). AList.update k v acc) d e"

text \<open>Lines 125 and 126: the price of a block from the text of its price element.\<close>

definition parse_price :: "string \<Rightarrow> pyexn + pyfloat" where
  "parse_price t =
     (let raw_price = strip t
      in float_of_str (strip (replace_char_empty a_circumflex (replace_char_empty pound raw_price))))"

text \<open>Lines 124 to 130: title, price, availability, rating and link of one block.\<close>

definition summary_fields ::
  "world \<Rightarrow> block \<Rightarrow> pyexn + (string \<times> pyfloat \<times> string \<times> string \<times> string)" where
  "summary_fields w b =
     then_exn (h3_a_title b) (\<lambda>title.
     then_exn (then_exn (price_color_text b) parse_price) (\<lambda>price.
     then_exn (availability_text b) (\<lambda>a.
     let availability = strip a in
     then_exn (then_exn (p_class b) index1) (\<lambda>rating.
     then_exn (h3_a_href b) (\<lambda>relative_link.
     then_exn (urljoin w catalogue_url relative_link) (\<lambda>link.
     Inr (title, price, availability, rating, link)))))))"

text \<open>Lines 135 to 144: the record of an item, with the detail fields when there are any.\<close>

definition book_data_of ::
  "string \<Rightarrow> pyfloat \<Rightarrow> string \<Rightarrow> string \<Rightarrow> string \<Rightarrow> book option \<Rightarrow> book" where
  "book_data_of title price availability rating link book_details =
     (let book_data =
            [(''title'', VStr title),
             (''price'', VFloat price),
             (''availability'', VStr availability),
             (''rating'', VStr rating),
             (''url'', VStr link)]
      in case book_details of
           None \<Rightarrow> book_data
         | Some d \<Rightarrow> if d \<noteq> [] then dict_update book_data d else book_data)"

text \<open>The body of the \<open>try\<close> inside the loop over the blocks.\<close>

definition process_book_try :: "world \<Rightarrow> block \<Rightarrow> state \<Rightarrow> (pyexn + unit) \<times> state" where
  "process_book_try w b s =
     (case summary_fields w b of
        Inl e \<Rightarrow> (Inl e, s)
      | Inr (title, price, availability, rating, link) \<Rightarrow>
          (case scrape_book_details w link s of
             (Inl e, s1) \<Rightarrow> (Inl e, s1)
           | (Inr book_details, s1) \<Rightarrow>
               (Inr (),
                s1\<lparr>all_books :=
                     all_books s1 @
                     [book_data_of title price availability rating link book_details]\<rparr>)))"

text \<open>One turn of the loop: the \<open>try\<close> with its \<open>except Exception\<close>.\<close>

definition process_book :: "world \<Rightarrow> int \<Rightarrow> block \<Rightarrow> state \<Rightarrow> (pyexn + unit) \<times> state" where
  "process_book w page_num b s =
     (case process_book_try w b s of
        (Inr u, s1) \<Rightarrow> (Inr u, s1)
      | (Inl e, s1) \<Rightarrow>
          (Inr (),
           logging ERROR
             (''Error processing book on page '' @ str_of_int page_num @ '': '' @ exn_msg e) s1))"

fun process_books :: "world \<Rightarrow> int \<Rightarrow> block list \<Rightarrow> state \<Rightarrow> (pyexn + unit) \<times> state" where
  "process_books w page_num [] s = (Inr (), s)"
| "process_books w page_num (b # bs) s =
     (case process_book w page_num b s of
        (Inl e, s1) \<Rightarrow> (Inl e, s1)
      | (Inr u, s1) \<Rightarrow> process_books w page_num bs s1)"

text \<open>\<open>not page_source\<close>: \<open>None\<close> and the empty string are false.\<close>

definition falsy :: "string option \<Rightarrow> bool" where
  "falsy r = (case r of None \<Rightarrow> True | Some src \<Rightarrow> src = [])"

definition page_url_of :: "int \<Rightarrow> string" where
  "page_url_of page_num = catalogue_url @ ''page-'' @ str_of_int page_num @ ''.html''"

definition scrape_page :: "world \<Rightarrow> int \<Rightarrow> state \<Rightarrow> (pyexn + bool) \<times> state" where
  "scrape_page w page_num s =
     (let page_url = page_url_of page_num;
          s0 = logging INFO (''Scraping page '' @ str_of_int page_num @ '': '' @ page_url)
                 (record_call (Call_scrape_page page_num) s)
      in case get_page w page_url s0 of
           (Inl e, s1) \<Rightarrow> (Inl e, s1)
         | (Inr r, s1) \<Rightarrow>
             if falsy r then (Inr False, s1)
             else
               (case select_product_pod w (the r) of
                  Inl e \<Rightarrow> (Inl e, s1)
                | Inr books \<Rightarrow>
                    if books = [] then
                      (Inr False,
                       logging WARNING (''No books found on page '' @ str_of_int page_num) s1)
                    else
                      (case process_books w page_num books s1 of
                         (Inl e, s2) \<Rightarrow> (Inl e, s2)
                       | (Inr u, s2) \<Rightarrow> (Inr True, s2))))"

subsection \<open>\<open>scrape_multiple_pages\<close>\<close>

text \<open>The loop over \<open>range(start_page, end_page + 1)\<close>, with its \<open>break\<close>.\<close>

fun scrape_pages :: "world \<Rightarrow> int list \<Rightarrow> state \<Rightarrow> (pyexn + unit) \<times> state" where
  "scrape_pages w [] s = (Inr (), s)"
| "scrape_pages w (page_num # rest) s =
     (case scrape_page w page_num s of
        (Inl e, s1) \<Rightarrow> (Inl e, s1)
      | (Inr ok, s1) \<Rightarrow> if \<not> ok then (Inr (), s1) else scrape_pages w rest s1)"

definition scrape_multiple_pages ::
  "world \<Rightarrow> int \<Rightarrow> int \<Rightarrow> state \<Rightarrow> (pyexn + unit) \<times> state" where
  "scrape_multiple_pages w start_page end_page s = scrape_pages w [start_page..end_page] s"

subsection \<open>\<open>save_to_csv\<close>\<close>

text \<open>\<open>os.path.join(a, b)\<close> on a POSIX system.\<close>

definition os_path_join :: "string \<Rightarrow> string \<Rightarrow> string" where
  "os_path_join a b =
     (if b \<noteq> [] \<and> hd b = CHR ''/'' then b
      else if a = [] \<or> last a = CHR ''/'' then a @ b
      else a @ ''/'' @ b)"

text \<open>\<open>sep.join(xs)\<close>\<close>

fun join :: "string \<Rightarrow> string list \<Rightarrow> string" where
  "join sep [] = []"
| "join sep [x] = x"
| "join sep (x # y # ys) = x @ sep @ join sep (y # ys)"

text \<open>
  A row of \<open>csv.writer\<close> in the default dialect: comma, double quote, minimal quoting,
  doubled quotes inside a quoted field, lines ended by CR LF; a row of one empty field is
  written as two quotes.
\<close>

definition crlf :: string where
  "crlf = [CHR 0x0D, CHR 0x0A]"

definition needs_quote :: "string \<Rightarrow> bool" where
  "needs_quote f = list_ex (\<lambda>c. c = CHR '','' \<or> c = CHR 0x22 \<or> c = CHR 0x0D \<or> c = CHR 0x0A) f"

definition csv_field :: "string \<Rightarrow> string" where
  "csv_field f =
     (if needs_quote f
      then [CHR 0x22] @ concat (map (\<lambda>c. if c = CHR 0x22 then [c, c] else [c]) f) @ [CHR 0x22]
      else f)"

definition csv_row :: "string list \<Rightarrow> string" where
  "csv_row row =
     (if row = [[]] then [CHR 0x22, CHR 0x22] else join '','' (map csv_field row)) @ crlf"

text \<open>\<open>str(x)\<close> of a float.\<close>

definition str_of_float :: "world \<Rightarrow> pyfloat \<Rightarrow> string" where
  "str_of_float w x =
     (case x of Finite q \<Rightarrow> float_repr w q | PosInf \<Rightarrow> ''inf'' | NegInf \<Rightarrow> ''-inf'' | NaN \<Rightarrow> ''nan'')"

definition csv_str :: "world \<Rightarrow> pyvalue \<Rightarrow> string" where
  "csv_str w v = (case v of VStr s \<Rightarrow> s | VFloat x \<Rightarrow> str_of_float w x)"

text \<open>
  \<open>DictWriter._dict_to_list\<close> with the defaults \<open>restval=''\<close> and \<open>extrasaction='raise'\<close>.
  (Python builds the message from a set, so the order of the names in it is not fixed.)
\<close>

definition dict_to_list :: "world \<Rightarrow> string list \<Rightarrow> book \<Rightarrow> pyexn + string list" where
  "dict_to_list w fieldnames rowdict =
     (let wrong_fields = filter (\<lambda>k. k \<notin> set fieldnames) (map fst rowdict)
      in if wrong_fields \<noteq> [] then
           Inl (PyExn ''ValueError''
                  (''dict contains fields not in fieldnames: '' @
                   join '', '' (map (\<lambda>k. [CHR 0x27] @ k @ [CHR 0x27]) wrong_fields)))
         else
           Inr (map (\<lambda>key. case map_of rowdict key of Some v \<Rightarrow> csv_str w v | None \<Rightarrow> [])
                  fieldnames))"

text \<open>\<open>writer.writerows(rows)\<close>: the text of the file grows row by row until a row raises.\<close>

fun writerows :: "world \<Rightarrow> string list \<Rightarrow> book list \<Rightarrow> string \<Rightarrow> (pyexn + unit) \<times> string" where
  "writerows w fieldnames [] out = (Inr (), out)"
| "writerows w fieldnames (r # rs) out =
     (case dict_to_list w fieldnames r of
        Inl e \<Rightarrow> (Inl e, out)
      | Inr row \<Rightarrow> writerows w fieldnames rs (out @ csv_row row))"

definition write_file :: "string \<Rightarrow> string \<Rightarrow> state \<Rightarrow> state" where
  "write_file path text s = s\<lparr>files := (files s)(path \<mapsto> text)\<rparr>"

text \<open>The body of the \<open>try\<close>: \<open>open\<close> in mode \<open>"w"\<close> empties the file before anything else.\<close>

definition save_to_csv_try :: "world \<Rightarrow> string \<Rightarrow> state \<Rightarrow> (pyexn + unit) \<times> state" where
  "save_to_csv_try w filepath s =
     (case open_w w filepath of
        Some e \<Rightarrow> (Inl e, s)
      | None \<Rightarrow>
          (let s1 = write_file filepath [] s in
           if all_books s1 = [] then (Inr (), logging WARNING ''No data to save to CSV'' s1)
           else
             (let fieldnames = map fst (hd (all_books s1));
                  header = csv_row fieldnames
              in case writerows w fieldnames (all_books s1) header of
                   (Inl e, out) \<Rightarrow> (Inl e, write_file filepath out s1)
                 | (Inr u, out) \<Rightarrow>
                     (Inr (),
                      logging INFO (''Data successfully saved to '' @ filepath)
                        (write_file filepath out s1)))))"

definition save_to_csv :: "world \<Rightarrow> state \<Rightarrow> (pyexn + unit) \<times> state" where
  "save_to_csv w s =
     (let filepath = os_path_join output_dir ''books_data.csv'';
          s0 = record_call (Call_save_to_csv (all_books s)) s
      in case save_to_csv_try w filepath s0 of
           (Inr u, s1) \<Rightarrow> (Inr (), s1)
         | (Inl e, s1) \<Rightarrow> (Inr (), logging ERROR (''Failed to save CSV: '' @ exn_msg e) s1))"

subsection \<open>\<open>save_to_json\<close>\<close>

text \<open>
  \<open>json.dump(obj, file, indent=4, ensure_ascii=False)\<close> on a list of dicts of strings and
  floats. With \<open>ensure_ascii=False\<close> only the quote, the backslash and the control
  characters below U+0020 are escaped.
\<close>

definition hex_digit :: "nat \<Rightarrow> char" where
  "hex_digit n = (if n < 10 then char_of (48 + n) else char_of (87 + n))"

definition json_escape :: "char \<Rightarrow> string" where
  "json_escape c =
     (if c = CHR 0x22 then [CHR 0x5C, CHR 0x22]
      else if c = CHR 0x5C then [CHR 0x5C, CHR 0x5C]
      else if c = CHR 0x0A then [CHR 0x5C, CHR ''n'']
      else if c = CHR 0x0D then [CHR 0x5C, CHR ''r'']
      else if c = CHR 0x09 then [CHR 0x5C, CHR ''t'']
      else if c = CHR 0x08 then [CHR 0x5C, CHR ''b'']
      else if c = CHR 0x0C then [CHR 0x5C, CHR ''f'']
      else if (of_char c :: nat) < 32 then
        [CHR 0x5C, CHR ''u'', CHR ''0'', CHR ''0'',
         hex_digit (of_char c div 16), hex_digit (of_char c mod 16)]
      else [c])"

definition encode_basestring :: "string \<Rightarrow> string" where
  "encode_basestring s = [CHR 0x22] @ concat (map json_escape s) @ [CHR 0x22]"

definition json_float :: "world \<Rightarrow> pyfloat \<Rightarrow> string" where
  "json_float w x =
     (case x of
        Finite q \<Rightarrow> float_repr w q
      | PosInf \<Rightarrow> ''Infinity''
      | NegInf \<Rightarrow> ''-Infinity''
      | NaN \<Rightarrow> ''NaN'')"

definition json_value :: "world \<Rightarrow> pyvalue \<Rightarrow> string" where
  "json_value w v = (case v of VStr s \<Rightarrow> encode_basestring s | VFloat x \<Rightarrow> json_float w x)"

definition newline_indent :: "nat \<Rightarrow> string" where
  "newline_indent lvl = CHR 0x0A # replicate (4 * lvl) CHR '' ''"

definition json_item :: "world \<Rightarrow> string \<times> pyvalue \<Rightarrow> string" where
  "json_item w kv = encode_basestring (fst kv) @ '': '' @ json_value w (snd kv)"

definition json_dict :: "world \<Rightarrow> nat \<Rightarrow> book \<Rightarrow> string" where
  "json_dict w lvl d =
     (if d = [] then ''{}''
      else ''{'' @ newline_indent (lvl + 1) @
           join ('','' @ newline_indent (lvl + 1)) (map (json_item w) d) @
           newline_indent lvl @ ''}'')"

definition json_list :: "world \<Rightarrow> nat \<Rightarrow> book list \<Rightarrow> string" where
  "json_list w lvl xs =
     (if xs = [] then ''[]''
      else ''['' @ newline_indent (lvl + 1) @
           join ('','' @ newline_indent (lvl + 1)) (map (json_dict w (lvl + 1)) xs) @
           newline_indent lvl @ '']'')"

definition json_dumps :: "world \<Rightarrow> book list \<Rightarrow> string" where
  "json_dumps w xs = json_list w 0 xs"

definition save_to_json_try :: "world \<Rightarrow> string \<Rightarrow> state \<Rightarrow> (pyexn + unit) \<times> state" where
  "save_to_json_try w filepath s =
     (case open_w w filepath of
        Some e \<Rightarrow> (Inl e, s)
      | None \<Rightarrow>
          (Inr (),
           logging INFO (''Data successfully saved to '' @ filepath)
             (write_file filepath (json_dumps w (all_books s)) s)))"

definition save_to_json :: "world \<Rightarrow> state \<Rightarrow> (pyexn + unit) \<times> state" where
  "save_to_json w s =
     (let filepath = os_path_join output_dir ''books_data.json'';
          s0 = record_call (Call_save_to_json (all_books s)) s
      in case save_to_json_try w filepath s0 of
           (Inr u, s1) \<Rightarrow> (Inr (), s1)
         | (Inl e, s1) \<Rightarrow> (Inr (), logging ERROR (''Failed to save JSON: '' @ exn_msg e) s1))"

subsection \<open>\<open>run\<close>\<close>

text \<open>The body of the \<open>try\<close>: the first statement that raises ends it.\<close>

definition run_try :: "world \<Rightarrow> int \<Rightarrow> int \<Rightarrow> state \<Rightarrow> (pyexn + unit) \<times> state" where
  "run_try w start_page end_page s =
     (case scrape_multiple_pages w start_page end_page s of
        (Inl e, s1) \<Rightarrow> (Inl e, s1)
      | (Inr u, s1) \<Rightarrow>
          (case save_to_csv w s1 of
             (Inl e, s2) \<Rightarrow> (Inl e, s2)
           | (Inr u, s2) \<Rightarrow> save_to_json w s2))"

text \<open>
  \<open>try\<close>, \<open>except Exception\<close>, \<open>finally\<close>, and the closing log line, which is not reached when
  \<open>driver.quit()\<close> raises.
\<close>

definition run :: "world \<Rightarrow> int \<Rightarrow> int \<Rightarrow> state \<Rightarrow> (pyexn + unit) \<times> state" where
  "run w start_page end_page s =
     (let s0 = logging INFO ''Starting Selenium scraper...'' s;
          s2 = (case run_try w start_page end_page s0 of
                  (Inr u, s1) \<Rightarrow> s1
                | (Inl e, s1) \<Rightarrow> logging ERROR (''Scraping failed: '' @ exn_msg e) s1);
          s3 = record_call Driver_quit s2
      in case quit w of
           Some e \<Rightarrow> (Inl e, s3)
         | None \<Rightarrow>
             (Inr (),
              logging INFO
                (''Scraping complete. Scraped '' @ str_of_nat (length (all_books s3)) @
                 '' books in '' @ elapsed w @ '' seconds.'') s3))"

section \<open>What a run does, as functions of the world alone\<close>

text \<open>
  The values below restate, without the state, what the operations above return and which
  calls and records they add; the lemmas of the last section prove that they do.
\<close>

definition events_since :: "state \<Rightarrow> state \<Rightarrow> event list" where
  "events_since s s1 = drop (length (history s)) (history s1)"

definition details_value :: "world \<Rightarrow> string \<Rightarrow> book option" where
  "details_value w book_url = (case book_details_of w book_url of Inl e \<Rightarrow> None | Inr r \<Rightarrow> r)"

definition block_records :: "world \<Rightarrow> block \<Rightarrow> book list" where
  "block_records w b =
     (case summary_fields w b of
        Inl e \<Rightarrow> []
      | Inr (title, price, availability, rating, link) \<Rightarrow>
          [book_data_of title price availability rating link (details_value w link)])"

definition block_events :: "world \<Rightarrow> block \<Rightarrow> event list" where
  "block_events w b =
     (case summary_fields w b of
        Inl e \<Rightarrow> []
      | Inr (title, price, availability, rating, link) \<Rightarrow> [Driver_get link])"

definition page_result :: "world \<Rightarrow> int \<Rightarrow> pyexn + bool" where
  "page_result w page_num =
     (case fetch w (page_url_of page_num) ''product_pod'' of
        Inl e \<Rightarrow> Inr False
      | Inr src \<Rightarrow>
          if src = [] then Inr False
          else (case select_product_pod w src of Inl e \<Rightarrow> Inl e | Inr books \<Rightarrow> Inr (books \<noteq> [])))"

definition page_blocks :: "world \<Rightarrow> int \<Rightarrow> block list" where
  "page_blocks w page_num =
     (case fetch w (page_url_of page_num) ''product_pod'' of
        Inl e \<Rightarrow> []
      | Inr src \<Rightarrow>
          if src = [] then []
          else (case select_product_pod w src of Inl e \<Rightarrow> [] | Inr books \<Rightarrow> books))"

definition page_records :: "world \<Rightarrow> int \<Rightarrow> book list" where
  "page_records w page_num = concat (map (block_records w) (page_blocks w page_num))"

definition page_events :: "world \<Rightarrow> int \<Rightarrow> event list" where
  "page_events w page_num =
     Call_scrape_page page_num # Driver_get (page_url_of page_num) #
     concat (map (block_events w) (page_blocks w page_num))"

text \<open>The pages of the range that the loop reaches.\<close>

fun attempted :: "world \<Rightarrow> int list \<Rightarrow> int list" where
  "attempted w [] = []"
| "attempted w (page_num # rest) =
     page_num # (if page_result w page_num = Inr True then attempted w rest else [])"

text \<open>What the loop returns or raises.\<close>

fun pages_result :: "world \<Rightarrow> int list \<Rightarrow> pyexn + unit" where
  "pages_result w [] = Inr ()"
| "pages_result w (page_num # rest) =
     (case page_result w page_num of
        Inl e \<Rightarrow> Inl e
      | Inr ok \<Rightarrow> if ok then pages_result w rest else Inr ())"

section \<open>Concrete worlds and states\<close>

text \<open>
  A world in which every page loads, no page holds an item block and no detail page holds
  the detail container; the examples below change single answers of it.
\<close>

definition world_ok :: world where
  "world_ok =
     \<lparr>driver_get = (\<lambda>u. None), wait_presence = (\<lambda>u c. None), page_source = (\<lambda>u. Inr ''<html>''),
      select_product_pod = (\<lambda>src. Inr []), find_product_page = (\<lambda>src. Inr None),
      urljoin = (\<lambda>a b. Inr (a @ b)), open_w = (\<lambda>p. None),
      float_repr = (\<lambda>q. if q = 5177 / 100 then ''51.77'' else ''0.0''),
      quit = None, elapsed = ''0.00''\<rparr>"

definition timeout_exn :: pyexn where
  "timeout_exn = PyExn ''TimeoutException'' ''Message: ''"

text \<open>The state of a new instance, with no file on disk.\<close>

definition state0 :: state where
  "state0 = \<lparr>all_books = [], logs = [], files = (\<lambda>p. None), history = []\<rparr>"

text \<open>An item summary block with every field in place, priced at 51.77 pounds.\<close>

definition block_ok :: block where
  "block_ok =
     \<lparr>h3_a_title = Inr ''A Light in the Attic'',
      price_color_text = Inr (CHR 0xA3 # ''51.77''),
      availability_text = Inr '' In stock '',
      p_class = Inr [''star-rating'', ''Three''],
      h3_a_href = Inr ''a-light-in-the-attic_1000/index.html''\<rparr>"

definition parser_exn :: pyexn where
  "parser_exn = PyExn ''FeatureNotFound'' ''Couldn't find a tree builder''"

text \<open>Page 1 holds one block; the markup parser raises on every other listing page.\<close>

definition world_page2_raises :: world where
  "world_page2_raises =
     world_ok
       \<lparr>page_source := (\<lambda>u. if u = page_url_of 1 then Inr ''<page1>'' else Inr ''<other>''),
        select_product_pod := (\<lambda>src. if src = ''<page1>'' then Inr [block_ok] else Inl parser_exn)\<rparr>"


text \<open>Two blocks that cannot be extracted: a price that is no number, and no title link.\<close>

definition block_bad_price :: block where
  "block_bad_price = block_ok\<lparr>price_color_text := Inr (CHR 0xA3 # ''N/A'')\<rparr>"

definition block_no_title :: block where
  "block_no_title =
     block_ok\<lparr>h3_a_title := Inl (PyExn ''AttributeError'' ''no attribute a'')\<rparr>"

text \<open>Every listing page holds the two blocks that cannot be extracted; page 3 does not load.\<close>

definition world_bad_blocks :: world where
  "world_bad_blocks =
     world_ok
       \<lparr>driver_get := (\<lambda>u. if u = page_url_of 3 then Some timeout_exn else None),
        select_product_pod := (\<lambda>src. Inr [block_bad_price, block_no_title])\<rparr>"

text \<open>Every listing page holds a good block, a block with a bad price and a good block.\<close>

definition world_mixed_blocks :: world where
  "world_mixed_blocks =
     world_ok\<lparr>select_product_pod := (\<lambda>src. Inr [block_ok, block_bad_price, block_ok])\<rparr>"

text \<open>A new instance beside an output file left by an earlier run.\<close>

definition state_old_csv :: state where
  "state_old_csv =
     state0\<lparr>files := (\<lambda>p. if p = ''scraped_data/books_data.csv''
                            then Some (''title,price'' @ crlf @ ''Old,1.0'' @ crlf) else None)\<rparr>"

text \<open>A detail container with the description and the four labelled rows.\<close>

definition product_page_full :: product_page where
  "product_page_full =
     \<lparr>meta_description_content = Inr '' A poetry classic. '',
      th_UPC_td_text = Inr ''a897fe39b1053632'',
      th_Product_Type_td_text = Inr ''Books'',
      th_Tax_td_text = Inr (CHR 0xA3 # ''0.00''),
      th_Number_of_reviews_td_text = Inr ''0''\<rparr>"

definition block_second :: block where
  "block_second =
     block_ok\<lparr>h3_a_title := Inr ''Tipping the Velvet'',
              h3_a_href := Inr ''tipping-the-velvet_999/index.html''\<rparr>"

text \<open>
  Page 1 holds two blocks. The page source of a page is its URL; the detail page of the
  first item has no detail container, that of the second item is complete.
\<close>

definition world_details_second_only :: world where
  "world_details_second_only =
     world_ok
       \<lparr>page_source := (\<lambda>u. Inr u),
        select_product_pod :=
          (\<lambda>src. if src = page_url_of 1 then Inr [block_ok, block_second] else Inr []),
        find_product_page :=
          (\<lambda>src. if src = catalogue_url @ ''tipping-the-velvet_999/index.html''
                 then Inr (Some product_page_full) else Inr None)\<rparr>"

text \<open>
  A result set of two records: one with the summary fields only, whose title has a
  non-ASCII letter, and one with the detail fields.
\<close>

definition book_summary_only :: book where
  "book_summary_only =
     [(''title'', VStr (''Caf'' @ [CHR 0xE9])),
      (''price'', VFloat (Finite (5177 / 100))),
      (''availability'', VStr ''In stock''),
      (''rating'', VStr ''Three''),
      (''url'', VStr ''https://books.toscrape.com/catalogue/cafe_1/index.html'')]"

definition book_with_details :: book where
  "book_with_details =
     [(''title'', VStr ''Tipping the Velvet''),
      (''price'', VFloat (Finite (5177 / 100))),
      (''availability'', VStr ''In stock''),
      (''rating'', VStr ''One''),
      (''url'', VStr ''https://books.toscrape.com/catalogue/tipping-the-velvet_999/index.html''),
      (''description'', VStr ''A poetry classic.''),
      (''upc'', VStr ''a897fe39b1053632''),
      (''product_type'', VStr ''Books''),
      (''tax'', VStr (CHR 0xA3 # ''0.00'')),
      (''reviews'', VStr ''0'')]"

definition state_two_books :: state where
  "state_two_books = state0\<lparr>all_books := [book_summary_only, book_with_details]\<rparr>"




section \<open>Properties\<close>

subsection \<open>The page fetch\<close>

lemma get_page_result:
  "get_page w url s =
     (case fetch w url ''product_pod'' of
        Inr src \<Rightarrow> (Inr (Some src), record_call (Driver_get url) s)
      | Inl e \<Rightarrow> (Inr None, logging ERROR (''Failed to fetch '' @ url @ '': '' @ exn_msg e)
                     (record_call (Driver_get url) s)))"
  by (simp add: get_page_def get_page_try_def split: sum.splits)

text \<open>
  Claim C6. For every URL, \<open>get_page\<close> returns and never raises. When the navigation
  raises \<open>e\<close> (an error or a load timeout), or the wait for the readiness marker raises \<open>e\<close>,
  or reading the page source raises \<open>e\<close>, the caller receives \<open>None\<close> and the log has
  received one ERROR line made of the URL and of the text of \<open>e\<close>.
\<close>

theorem get_page_never_raises:
  "(\<exists>r s1. get_page w url s = (Inr r, s1)) \<and>
   ((driver_get w url = Some e \<or>
     (driver_get w url = None \<and> wait_presence w url ''product_pod'' = Some e) \<or>
     (driver_get w url = None \<and> wait_presence w url ''product_pod'' = None \<and>
      page_source w url = Inl e)) \<longrightarrow>
    get_page w url s =
      (Inr None,
       logging ERROR (''Failed to fetch '' @ url @ '': '' @ exn_msg e)
         (record_call (Driver_get url) s)))"
  by (auto simp: get_page_result fetch_def split: sum.splits option.splits)

theorem get_page_never_raises_witness:
  "driver_get (world_ok\<lparr>driver_get := (\<lambda>u. Some timeout_exn)\<rparr>) ''u'' = Some timeout_exn \<and>
   get_page (world_ok\<lparr>driver_get := (\<lambda>u. Some timeout_exn)\<rparr>) ''u'' state0 =
     (Inr None,
      logging ERROR (''Failed to fetch '' @ ''u'' @ '': '' @ exn_msg timeout_exn)
        (record_call (Driver_get ''u'') state0))"
  using get_page_never_raises
    [of "world_ok\<lparr>driver_get := (\<lambda>u. Some timeout_exn)\<rparr>" "''u''" state0 timeout_exn]
  by simp

subsection \<open>What each operation returns and changes\<close>

lemma scrape_book_details_result:
  "scrape_book_details w url s =
     (case book_details_of w url of
        Inr r \<Rightarrow> (Inr r, record_call (Driver_get url) s)
      | Inl e \<Rightarrow>
          (Inr None,
           logging ERROR (''Error scraping book details from '' @ url @ '': '' @ exn_msg e)
             (record_call (Driver_get url) s)))"
  by (simp add: scrape_book_details_def scrape_book_details_try_def split: sum.splits)


lemma scrape_book_details_all_books: "all_books (snd (scrape_book_details w url s)) = all_books s"
  by (simp add: scrape_book_details_result logging_def record_call_def split: sum.splits)

lemma scrape_book_details_history:
  "history (snd (scrape_book_details w url s)) = history s @ [Driver_get url]"
  by (simp add: scrape_book_details_result logging_def record_call_def split: sum.splits)

lemma scrape_book_details_files: "files (snd (scrape_book_details w url s)) = files s"
  by (simp add: scrape_book_details_result logging_def record_call_def split: sum.splits)

lemma scrape_book_details_eq:
  "scrape_book_details w url s =
     (Inr (details_value w url),
      case book_details_of w url of
        Inr r \<Rightarrow> record_call (Driver_get url) s
      | Inl e \<Rightarrow>
          logging ERROR (''Error scraping book details from '' @ url @ '': '' @ exn_msg e)
            (record_call (Driver_get url) s))"
  by (simp add: scrape_book_details_result details_value_def split: sum.splits)

lemma process_book_fst: "fst (process_book w n b s) = Inr ()"
  by (simp add: process_book_def process_book_try_def scrape_book_details_eq
           split: sum.splits prod.splits)

lemma process_book_all_books:
  "all_books (snd (process_book w n b s)) = all_books s @ block_records w b"
  by (simp add: process_book_def process_book_try_def scrape_book_details_eq block_records_def
                logging_def record_call_def
           split: sum.splits prod.splits)

lemma process_book_history:
  "history (snd (process_book w n b s)) = history s @ block_events w b"
  by (simp add: process_book_def process_book_try_def scrape_book_details_eq block_events_def
                logging_def record_call_def
           split: sum.splits prod.splits)

lemma process_book_files: "files (snd (process_book w n b s)) = files s"
  by (simp add: process_book_def process_book_try_def scrape_book_details_eq
                logging_def record_call_def
           split: sum.splits prod.splits)

lemma process_books_fst: "fst (process_books w n bs s) = Inr ()"
proof (induction bs arbitrary: s)
  case Nil
  show ?case by simp
next
  case (Cons b bs)
  obtain s1 where p: "process_book w n b s = (Inr (), s1)"
    using process_book_fst [of w n b s] by (cases "process_book w n b s") auto
  show ?case using Cons.IH [of s1] by (simp add: p)
qed

lemma process_books_all_books:
  "all_books (snd (process_books w n bs s)) = all_books s @ concat (map (block_records w) bs)"
proof (induction bs arbitrary: s)
  case Nil
  show ?case by simp
next
  case (Cons b bs)
  obtain s1 where p: "process_book w n b s = (Inr (), s1)"
    using process_book_fst [of w n b s] by (cases "process_book w n b s") auto
  have "all_books s1 = all_books s @ block_records w b"
    using process_book_all_books [of w n b s] by (simp add: p)
  then show ?case using Cons.IH [of s1] by (simp add: p)
qed

lemma process_books_history:
  "history (snd (process_books w n bs s)) = history s @ concat (map (block_events w) bs)"
proof (induction bs arbitrary: s)
  case Nil
  show ?case by simp
next
  case (Cons b bs)
  obtain s1 where p: "process_book w n b s = (Inr (), s1)"
    using process_book_fst [of w n b s] by (cases "process_book w n b s") auto
  have "history s1 = history s @ block_events w b"
    using process_book_history [of w n b s] by (simp add: p)
  then show ?case using Cons.IH [of s1] by (simp add: p)
qed

lemma process_books_files: "files (snd (process_books w n bs s)) = files s"
proof (induction bs arbitrary: s)
  case Nil
  show ?case by simp
next
  case (Cons b bs)
  obtain s1 where p: "process_book w n b s = (Inr (), s1)"
    using process_book_fst [of w n b s] by (cases "process_book w n b s") auto
  have "files s1 = files s"
    using process_book_files [of w n b s] by (simp add: p)
  then show ?case using Cons.IH [of s1] by (simp add: p)
qed

lemma process_books_eq:
  "process_books w n bs s = (Inr (), snd (process_books w n bs s))"
  using process_books_fst [of w n bs s] by (cases "process_books w n bs s") simp

lemma get_page_eq:
  "get_page w url s =
     (Inr (case fetch w url ''product_pod'' of Inr src \<Rightarrow> Some src | Inl e \<Rightarrow> None),
      case fetch w url ''product_pod'' of
        Inr src \<Rightarrow> record_call (Driver_get url) s
      | Inl e \<Rightarrow> logging ERROR (''Failed to fetch '' @ url @ '': '' @ exn_msg e)
                     (record_call (Driver_get url) s))"
  by (simp add: get_page_result split: sum.splits)

lemma case_process_books:
  "(case process_books w n bs s of (Inl e, s2) \<Rightarrow> f e s2 | (Inr u, s2) \<Rightarrow> g u s2) =
     g () (snd (process_books w n bs s))"
  by (subst process_books_eq) simp

lemma scrape_page_fst: "fst (scrape_page w n s) = page_result w n"
  by (simp add: scrape_page_def get_page_eq page_result_def falsy_def Let_def
                case_process_books
           split: sum.splits option.splits)

lemma scrape_page_all_books:
  "all_books (snd (scrape_page w n s)) = all_books s @ page_records w n"
  by (simp add: scrape_page_def get_page_eq page_records_def page_blocks_def falsy_def Let_def
                case_process_books process_books_all_books logging_def record_call_def
           split: sum.splits option.splits)

lemma scrape_page_history:
  "history (snd (scrape_page w n s)) = history s @ page_events w n"
  by (simp add: scrape_page_def get_page_eq page_events_def page_blocks_def falsy_def Let_def
                case_process_books process_books_history logging_def record_call_def
           split: sum.splits option.splits)

lemma scrape_page_files: "files (snd (scrape_page w n s)) = files s"
  by (simp add: scrape_page_def get_page_eq falsy_def Let_def
                case_process_books process_books_files logging_def record_call_def
           split: sum.splits option.splits)

lemma scrape_page_eq: "scrape_page w n s = (page_result w n, snd (scrape_page w n s))"
  using scrape_page_fst [of w n s] by (cases "scrape_page w n s") simp

lemma scrape_pages_fst: "fst (scrape_pages w ps s) = pages_result w ps"
proof (induction ps arbitrary: s)
  case Nil
  show ?case by simp
next
  case (Cons p ps)
  show ?case
    by (subst scrape_pages.simps, subst scrape_page_eq) (simp add: Cons.IH split: sum.splits)
qed

lemma scrape_pages_all_books:
  "all_books (snd (scrape_pages w ps s)) =
     all_books s @ concat (map (page_records w) (attempted w ps))"
proof (induction ps arbitrary: s)
  case Nil
  show ?case by simp
next
  case (Cons p ps)
  show ?case
    by (subst scrape_pages.simps, subst scrape_page_eq)
       (simp add: Cons.IH scrape_page_all_books split: sum.splits)
qed

lemma scrape_pages_history:
  "history (snd (scrape_pages w ps s)) =
     history s @ concat (map (page_events w) (attempted w ps))"
proof (induction ps arbitrary: s)
  case Nil
  show ?case by simp
next
  case (Cons p ps)
  show ?case
    by (subst scrape_pages.simps, subst scrape_page_eq)
       (simp add: Cons.IH scrape_page_history split: sum.splits)
qed

lemma scrape_pages_files: "files (snd (scrape_pages w ps s)) = files s"
proof (induction ps arbitrary: s)
  case Nil
  show ?case by simp
next
  case (Cons p ps)
  show ?case
    by (subst scrape_pages.simps, subst scrape_page_eq)
       (simp add: Cons.IH scrape_page_files split: sum.splits)
qed

lemma logging_fields [simp]:
  "all_books (logging l m s) = all_books s"
  "history (logging l m s) = history s"
  "files (logging l m s) = files s"
  "logs (logging l m s) = logs s @ [(l, m)]"
  by (simp_all add: logging_def)

lemma record_call_fields [simp]:
  "all_books (record_call ev s) = all_books s"
  "history (record_call ev s) = history s @ [ev]"
  "files (record_call ev s) = files s"
  "logs (record_call ev s) = logs s"
  by (simp_all add: record_call_def)

lemma write_file_fields [simp]:
  "all_books (write_file p x s) = all_books s"
  "history (write_file p x s) = history s"
  "files (write_file p x s) = (files s)(p \<mapsto> x)"
  "logs (write_file p x s) = logs s"
  by (simp_all add: write_file_def)

lemma save_to_csv_fst: "fst (save_to_csv w s) = Inr ()"
  by (simp add: save_to_csv_def Let_def split: sum.splits prod.splits)

lemma save_to_csv_all_books: "all_books (snd (save_to_csv w s)) = all_books s"
  by (simp add: save_to_csv_def save_to_csv_try_def Let_def logging_def record_call_def write_file_def
           split: sum.splits prod.splits option.splits)

lemma save_to_csv_history:
  "history (snd (save_to_csv w s)) = history s @ [Call_save_to_csv (all_books s)]"
  by (simp add: save_to_csv_def save_to_csv_try_def Let_def logging_def record_call_def write_file_def
           split: sum.splits prod.splits option.splits)

lemma save_to_json_fst: "fst (save_to_json w s) = Inr ()"
  by (simp add: save_to_json_def Let_def split: sum.splits prod.splits)

lemma save_to_json_all_books: "all_books (snd (save_to_json w s)) = all_books s"
  by (simp add: save_to_json_def save_to_json_try_def Let_def logging_def record_call_def write_file_def
           split: sum.splits prod.splits option.splits)

lemma save_to_json_history:
  "history (snd (save_to_json w s)) = history s @ [Call_save_to_json (all_books s)]"
  by (simp add: save_to_json_def save_to_json_try_def Let_def logging_def record_call_def write_file_def
           split: sum.splits prod.splits option.splits)

lemma scrape_multiple_pages_eq:
  "scrape_multiple_pages w a b s =
     (pages_result w [a..b], snd (scrape_multiple_pages w a b s))"
  using scrape_pages_fst [of w "[a..b]" s]
  by (cases "scrape_pages w [a..b] s") (simp add: scrape_multiple_pages_def)

lemma save_to_csv_eq: "save_to_csv w s = (Inr (), snd (save_to_csv w s))"
  using save_to_csv_fst [of w s] by (cases "save_to_csv w s") simp

lemma save_to_json_eq: "save_to_json w s = (Inr (), snd (save_to_json w s))"
  using save_to_json_fst [of w s] by (cases "save_to_json w s") simp

lemma run_try_history:
  "history (snd (run_try w a b s)) =
     history s @ concat (map (page_events w) (attempted w [a..b])) @
     (case pages_result w [a..b] of
        Inl e \<Rightarrow> []
      | Inr u \<Rightarrow>
          [Call_save_to_csv (all_books s @ concat (map (page_records w) (attempted w [a..b]))),
           Call_save_to_json (all_books s @ concat (map (page_records w) (attempted w [a..b])))])"
proof -
  let ?s1 = "snd (scrape_multiple_pages w a b s)"
  have h1: "history ?s1 = history s @ concat (map (page_events w) (attempted w [a..b]))"
    by (simp add: scrape_multiple_pages_def scrape_pages_history)
  have b1: "all_books ?s1 = all_books s @ concat (map (page_records w) (attempted w [a..b]))"
    by (simp add: scrape_multiple_pages_def scrape_pages_all_books)
  show ?thesis
  proof (cases "pages_result w [a..b]")
    case (Inl e)
    then show ?thesis
      by (subst run_try_def, subst scrape_multiple_pages_eq) (simp add: h1)
  next
    case (Inr u)
    then show ?thesis
      by (subst run_try_def, subst scrape_multiple_pages_eq, subst save_to_csv_eq)
         (simp add: h1 b1 save_to_json_history save_to_csv_history save_to_csv_all_books)
  qed
qed

lemma run_try_all_books:
  "all_books (snd (run_try w a b s)) =
     all_books s @ concat (map (page_records w) (attempted w [a..b]))"
proof -
  let ?s1 = "snd (scrape_multiple_pages w a b s)"
  have b1: "all_books ?s1 = all_books s @ concat (map (page_records w) (attempted w [a..b]))"
    by (simp add: scrape_multiple_pages_def scrape_pages_all_books)
  show ?thesis
  proof (cases "pages_result w [a..b]")
    case (Inl e)
    then show ?thesis
      by (subst run_try_def, subst scrape_multiple_pages_eq) (simp add: b1)
  next
    case (Inr u)
    then show ?thesis
      by (subst run_try_def, subst scrape_multiple_pages_eq, subst save_to_csv_eq)
         (simp add: b1 save_to_json_all_books save_to_csv_all_books)
  qed
qed

lemma run_try_fst: "fst (run_try w a b s) = pages_result w [a..b]"
proof (cases "pages_result w [a..b]")
  case (Inl e)
  then show ?thesis
    by (subst run_try_def, subst scrape_multiple_pages_eq) simp
next
  case (Inr u)
  then show ?thesis
    by (subst run_try_def, subst scrape_multiple_pages_eq, subst save_to_csv_eq)
       (simp add: save_to_json_fst)
qed

lemma run_history:
  "history (snd (run w a b s)) =
     history s @ concat (map (page_events w) (attempted w [a..b])) @
     (case pages_result w [a..b] of
        Inl e \<Rightarrow> []
      | Inr u \<Rightarrow>
          [Call_save_to_csv (all_books s @ concat (map (page_records w) (attempted w [a..b]))),
           Call_save_to_json (all_books s @ concat (map (page_records w) (attempted w [a..b])))]) @
     [Driver_quit]"
proof -
  let ?s0 = "logging INFO ''Starting Selenium scraper...'' s"
  have hs2: "history (case run_try w a b ?s0 of
                        (Inr u, s1) \<Rightarrow> s1
                      | (Inl e, s1) \<Rightarrow> logging ERROR (''Scraping failed: '' @ exn_msg e) s1) =
             history (snd (run_try w a b ?s0))"
    by (cases "run_try w a b ?s0") (simp split: sum.splits)
  show ?thesis
    by (cases "quit w") (simp_all add: run_def Let_def hs2 run_try_history split: sum.splits)
qed

lemma run_all_books:
  "all_books (snd (run w a b s)) =
     all_books s @ concat (map (page_records w) (attempted w [a..b]))"
proof -
  let ?s0 = "logging INFO ''Starting Selenium scraper...'' s"
  have hs2: "all_books (case run_try w a b ?s0 of
                        (Inr u, s1) \<Rightarrow> s1
                      | (Inl e, s1) \<Rightarrow> logging ERROR (''Scraping failed: '' @ exn_msg e) s1) =
             all_books (snd (run_try w a b ?s0))"
    by (cases "run_try w a b ?s0") (simp split: sum.splits)
  show ?thesis
    by (cases "quit w") (simp_all add: run_def Let_def hs2 run_try_all_books)
qed

subsection \<open>The run: writers and release\<close>

lemma events_since_append: "history s1 = history s @ evs \<Longrightarrow> events_since s s1 = evs"
  by (simp add: events_since_def)

text \<open>
  Claim C1, as stated, fails: when the markup parser raises on page 2, \<open>run(1, 2)\<close> goes
  from the fetch of page 2 straight to \<open>driver.quit()\<close>; neither writer is called, although
  page 1 has produced a record.
\<close>

theorem run_skips_writers_when_scraping_raises:
  "history (snd (run world_page2_raises 1 2 state0)) =
     [Call_scrape_page 1,
      Driver_get ''https://books.toscrape.com/catalogue/page-1.html'',
      Driver_get ''https://books.toscrape.com/catalogue/a-light-in-the-attic_1000/index.html'',
      Call_scrape_page 2,
      Driver_get ''https://books.toscrape.com/catalogue/page-2.html'',
      Driver_quit]"
  by code_simp

text \<open>
  Claim C1, amended. On every run the calls made are those of the scraping, followed, when
  the scraping returned (after the whole range or after an early stop), by the tabular writer
  and then the structured-document writer, both on the accumulated result set, and closed in
  every case by the release of the browser session. When the scraping raised, the release
  follows it directly.
\<close>

theorem run_releases_session:
  "(let s0 = logging INFO ''Starting Selenium scraper...'' s;
        s1 = snd (scrape_multiple_pages w a b s0)
    in events_since s (snd (run w a b s)) =
         events_since s0 s1 @
         (case fst (scrape_multiple_pages w a b s0) of
            Inl e \<Rightarrow> []
          | Inr u \<Rightarrow> [Call_save_to_csv (all_books s1), Call_save_to_json (all_books s1)]) @
         [Driver_quit])"
proof -
  let ?s0 = "logging INFO ''Starting Selenium scraper...'' s"
  let ?s1 = "snd (scrape_multiple_pages w a b ?s0)"
  have h1: "events_since ?s0 ?s1 = concat (map (page_events w) (attempted w [a..b]))"
    by (rule events_since_append) (simp add: scrape_multiple_pages_def scrape_pages_history)
  have b1: "all_books ?s1 = all_books s @ concat (map (page_records w) (attempted w [a..b]))"
    by (simp add: scrape_multiple_pages_def scrape_pages_all_books)
  have f1: "fst (scrape_multiple_pages w a b ?s0) = pages_result w [a..b]"
    by (simp add: scrape_multiple_pages_def scrape_pages_fst)
  have "events_since s (snd (run w a b s)) =
          concat (map (page_events w) (attempted w [a..b])) @
          (case pages_result w [a..b] of
             Inl e \<Rightarrow> []
           | Inr u \<Rightarrow>
               [Call_save_to_csv (all_books s @ concat (map (page_records w) (attempted w [a..b]))),
                Call_save_to_json (all_books s @ concat (map (page_records w) (attempted w [a..b])))]) @
          [Driver_quit]"
    by (rule events_since_append) (simp add: run_history)
  then show ?thesis
    by (simp only: Let_def h1 b1 f1)
qed

subsection \<open>Early stop\<close>








subsection \<open>One listing page\<close>

lemma page_result_fetched:
  "fst (get_page w (page_url_of n) s) = Inr (Some src) \<Longrightarrow> src \<noteq> [] \<Longrightarrow>
   select_product_pod w src = Inr books \<Longrightarrow>
   page_result w n = Inr (books \<noteq> []) \<and> page_blocks w n = books"
  by (auto simp: get_page_eq page_result_def page_blocks_def split: sum.splits)

lemma block_records_length:
  "length (block_records w b) = (if isl (summary_fields w b) then 0 else 1)"
  by (simp add: block_records_def split: sum.splits prod.splits)

lemma concat_block_records_length:
  "length (concat (map (block_records w) bs)) =
     length bs - length (filter (\<lambda>b. isl (summary_fields w b)) bs)"
proof (induction bs)
  case Nil
  show ?case by simp
next
  case (Cons b bs)
  have "length (filter (\<lambda>b. isl (summary_fields w b)) bs) \<le> length bs"
    by (rule length_filter_le)
  then show ?case using Cons by (simp add: block_records_length)
qed

lemma concat_block_records_all_bad:
  "\<forall>b \<in> set bs. isl (summary_fields w b) \<Longrightarrow> concat (map (block_records w) bs) = []"
  by (induction bs) (auto simp: block_records_def split: sum.splits)

text \<open>
  Claim C10. When the fetch of a listing page returns markup that holds at least one item
  summary block, \<open>scrape_page\<close> returns \<open>True\<close> whatever the extraction of the blocks
  gives, and the loop goes on with the rest of the range; when every block fails, nothing has
  been appended. \<open>scrape_page\<close> returns \<open>False\<close> only when the fetch failed (\<open>get_page\<close>
  returned \<open>None\<close>, or an empty page source, which \<open>not page_source\<close> takes for a failure
  too) or when the page holds no block.
\<close>

theorem page_with_blocks_reports_success:
  "(fst (get_page w (page_url_of n) s) = Inr (Some src) \<and> src \<noteq> [] \<and>
    select_product_pod w src = Inr books \<and> books \<noteq> [] \<longrightarrow>
      fst (scrape_page w n s) = Inr True \<and>
      scrape_pages w (n # rest) s = scrape_pages w rest (snd (scrape_page w n s)) \<and>
      ((\<forall>b \<in> set books. isl (summary_fields w b)) \<longrightarrow>
         all_books (snd (scrape_page w n s)) = all_books s)) \<and>
   (fst (scrape_page w m t) = Inr False \<longrightarrow>
      fst (get_page w (page_url_of m) t) = Inr None \<or>
      fst (get_page w (page_url_of m) t) = Inr (Some []) \<or>
      (\<exists>src1. fst (get_page w (page_url_of m) t) = Inr (Some src1) \<and>
              select_product_pod w src1 = Inr []))"
proof (intro conjI impI)
  assume a: "fst (get_page w (page_url_of n) s) = Inr (Some src) \<and> src \<noteq> [] \<and>
             select_product_pod w src = Inr books \<and> books \<noteq> []"
  then have pr: "page_result w n = Inr True" and pb: "page_blocks w n = books"
    using page_result_fetched [of w n s src books] by simp_all
  show "fst (scrape_page w n s) = Inr True"
    by (simp add: scrape_page_fst pr)
  show "scrape_pages w (n # rest) s = scrape_pages w rest (snd (scrape_page w n s))"
    by (subst scrape_pages.simps, subst scrape_page_eq) (simp add: pr)
  assume "\<forall>b \<in> set books. isl (summary_fields w b)"
  then show "all_books (snd (scrape_page w n s)) = all_books s"
    by (simp add: scrape_page_all_books page_records_def pb concat_block_records_all_bad)
next
  assume "fst (scrape_page w m t) = Inr False"
  then have "page_result w m = Inr False" by (simp add: scrape_page_fst)
  then show "fst (get_page w (page_url_of m) t) = Inr None \<or>
      fst (get_page w (page_url_of m) t) = Inr (Some []) \<or>
      (\<exists>src1. fst (get_page w (page_url_of m) t) = Inr (Some src1) \<and>
              select_product_pod w src1 = Inr [])"
    by (auto simp: get_page_eq page_result_def split: sum.splits if_splits)
qed

theorem page_with_blocks_reports_success_witness:
  "fst (get_page world_bad_blocks (page_url_of 1) state0) = Inr (Some ''<html>'') \<and>
   select_product_pod world_bad_blocks ''<html>'' = Inr [block_bad_price, block_no_title] \<and>
   isl (summary_fields world_bad_blocks block_bad_price) \<and>
   isl (summary_fields world_bad_blocks block_no_title) \<and>
   fst (scrape_page world_bad_blocks 1 state0) = Inr True \<and>
   scrape_pages world_bad_blocks [1, 2] state0 =
     scrape_pages world_bad_blocks [2] (snd (scrape_page world_bad_blocks 1 state0)) \<and>
   all_books (snd (scrape_page world_bad_blocks 1 state0)) = all_books state0 \<and>
   fst (scrape_page world_bad_blocks 3 state0) = Inr False \<and>
   fst (get_page world_bad_blocks (page_url_of 3) state0) = Inr None"
proof -
  have h1: "fst (get_page world_bad_blocks (page_url_of 1) state0) = Inr (Some ''<html>'')"
    by code_simp
  have h2: "select_product_pod world_bad_blocks ''<html>'' = Inr [block_bad_price, block_no_title]"
    by (simp add: world_bad_blocks_def)
  have h3: "isl (summary_fields world_bad_blocks block_bad_price)"
    by code_simp
  have h4: "isl (summary_fields world_bad_blocks block_no_title)"
    by code_simp
  have h5: "fst (scrape_page world_bad_blocks 3 state0) = Inr False"
    by code_simp
  have h6: "fst (get_page world_bad_blocks (page_url_of 3) state0) = Inr None"
    by code_simp
  show ?thesis
    using h1 h2 h3 h4 h5 h6
      page_with_blocks_reports_success
        [of world_bad_blocks 1 state0 "''<html>''" "[block_bad_price, block_no_title]" "[2]" 3 state0]
    by simp
qed

text \<open>
  Claim C8. On a listing page that was fetched and holds the blocks \<open>books\<close>, the page is
  not aborted (\<open>scrape_page\<close> returns \<open>True\<close>), the records that were in the result set
  stay in front, and the number of records appended is the number of blocks minus the number
  of blocks whose summary fields cannot be extracted.
\<close>

theorem records_per_page:
  assumes "fst (get_page w (page_url_of n) s) = Inr (Some src)"
    and "src \<noteq> []"
    and "select_product_pod w src = Inr books"
    and "books \<noteq> []"
  shows "fst (scrape_page w n s) = Inr True \<and>
         length (all_books (snd (scrape_page w n s))) =
           length (all_books s) +
           (length books - length (filter (\<lambda>b. isl (summary_fields w b)) books)) \<and>
         take (length (all_books s)) (all_books (snd (scrape_page w n s))) = all_books s"
proof -
  have pr: "page_result w n = Inr True" and pb: "page_blocks w n = books"
    using page_result_fetched [OF assms(1-3)] assms(4) by simp_all
  show ?thesis
    by (simp add: scrape_page_fst pr scrape_page_all_books page_records_def pb
                  concat_block_records_length)
qed

theorem records_per_page_witness:
  "fst (get_page world_mixed_blocks (page_url_of 1) state0) = Inr (Some ''<html>'') \<and>
   select_product_pod world_mixed_blocks ''<html>'' = Inr [block_ok, block_bad_price, block_ok] \<and>
   filter (\<lambda>b. isl (summary_fields world_mixed_blocks b)) [block_ok, block_bad_price, block_ok] =
     [block_bad_price] \<and>
   fst (scrape_page world_mixed_blocks 1 state0) = Inr True \<and>
   length (all_books (snd (scrape_page world_mixed_blocks 1 state0))) = 2"
proof -
  have h1: "fst (get_page world_mixed_blocks (page_url_of 1) state0) = Inr (Some ''<html>'')"
    by code_simp
  have h2: "''<html>'' \<noteq> []" by simp
  have h3: "select_product_pod world_mixed_blocks ''<html>'' =
              Inr [block_ok, block_bad_price, block_ok]"
    by (simp add: world_mixed_blocks_def)
  have h4: "[block_ok, block_bad_price, block_ok] \<noteq> []" by simp
  have h5: "filter (\<lambda>b. isl (summary_fields world_mixed_blocks b))
              [block_ok, block_bad_price, block_ok] = [block_bad_price]"
    by code_simp
  have h6: "all_books state0 = []" by (simp add: state0_def)
  show ?thesis
    using h1 h3 h5 records_per_page [OF h1 h2 h3 h4] by (simp add: h6)
qed

subsection \<open>Price parsing\<close>

lemma fraction_nonneg: "0 \<le> fraction fp k"
  by (simp add: fraction_def)

lemma number_nonneg: "number s = Some (m, r) \<Longrightarrow> 0 \<le> m"
  by (auto simp: number_def fraction_nonneg split: option.splits list.splits if_splits)

lemma scale10_nonneg: "0 \<le> m \<Longrightarrow> 0 \<le> scale10 m e"
  by (simp add: scale10_def)

lemma absfloatvalue_nonneg: "absfloatvalue s = Some v \<Longrightarrow> v = NaN \<or> non_negative v"
  by (auto simp: absfloatvalue_def scale10_nonneg number_nonneg
           split: if_splits option.splits prod.splits)

lemma set_strip: "set (strip s) \<subseteq> set s"
proof -
  have "set (strip s) \<subseteq> set (rev (dropWhile is_space s))"
    unfolding strip_def set_rev by (auto dest: set_dropWhileD)
  also have "\<dots> \<subseteq> set s"
    by (auto dest: set_dropWhileD)
  finally show ?thesis .
qed

lemma float_of_str_nonneg:
  assumes "CHR ''-'' \<notin> set s" and "float_of_str s = Inr p"
  shows "p = NaN \<or> non_negative p"
proof (cases "strip s")
  case Nil
  then show ?thesis using assms(2) by (simp add: float_of_str_def)
next
  case (Cons c r)
  then have "c \<in> set s" using set_strip [of s] by auto
  then have c: "c \<noteq> CHR ''-''" using assms(1) by auto
  show ?thesis
    using assms(2) Cons c absfloatvalue_nonneg
    by (auto simp: float_of_str_def split: if_splits option.splits)
qed

lemma parse_price_nonneg:
  assumes "CHR ''-'' \<notin> set t" and "parse_price t = Inr p"
  shows "p = NaN \<or> non_negative p"
proof -
  let ?u = "strip (replace_char_empty a_circumflex (replace_char_empty pound (strip t)))"
  have "set ?u \<subseteq> set t"
    using set_strip [of t]
          set_strip [of "replace_char_empty a_circumflex (replace_char_empty pound (strip t))"]
    by (auto simp: replace_char_empty_def)
  then have "CHR ''-'' \<notin> set ?u" using assms(1) by auto
  moreover have "float_of_str ?u = Inr p"
    using assms(2) by (simp add: parse_price_def Let_def float_of_str_def)
  ultimately show ?thesis by (rule float_of_str_nonneg)
qed

lemma bad_price_no_record:
  "price_color_text b = Inr t \<Longrightarrow> parse_price t = Inl e \<Longrightarrow> block_records w b = []"
  by (simp add: block_records_def summary_fields_def then_exn_def split: sum.splits)

text \<open>
  Claim C5, as stated, fails: nothing checks the sign, and the price text of a pound sign
  followed by \<open>-5.00\<close> is parsed to the negative price \<open>-5\<close>.
\<close>

theorem negative_price_is_accepted:
  "parse_price (CHR 0xA3 # ''-5.00'') = Inr (Finite (- 5)) \<and> \<not> non_negative (Finite (- 5))"
  by (simp add: parse_price_def float_of_str_def strip_def replace_char_empty_def
        a_circumflex_def pound_def is_space_def absfloatvalue_def ascii_lower_def number_def
        digitpart_def is_digit_def digit_val_def exponent_def scale10_def fraction_def)

text \<open>
  Claim C5, amended. Price parsing maps the pound sign followed by \<open>51.77\<close>, with or
  without the stray capital A with circumflex in front, to the decimal 51.77. A price parsed
  from a text that holds no minus sign is non-negative or is \<open>nan\<close>. When the price text
  of a block is malformed (\<open>float\<close> raises), the loop over the blocks still returns, and the
  result set is the one the page gives without that block: only that item is skipped.
\<close>

theorem price_parsing:
  "parse_price (CHR 0xA3 # ''51.77'') = Inr (Finite (5177 / 100)) \<and>
   parse_price (CHR 0xC2 # CHR 0xA3 # ''51.77'') = Inr (Finite (5177 / 100)) \<and>
   (CHR ''-'' \<notin> set t \<and> parse_price t = Inr p \<longrightarrow> p = NaN \<or> non_negative p) \<and>
   (price_color_text b = Inr t1 \<and> parse_price t1 = Inl e \<longrightarrow>
      fst (process_books w n (bs1 @ b # bs2) s) = Inr () \<and>
      all_books (snd (process_books w n (bs1 @ b # bs2) s)) =
        all_books (snd (process_books w n (bs1 @ bs2) s)))"
proof (intro conjI impI)
  show "parse_price (CHR 0xA3 # ''51.77'') = Inr (Finite (5177 / 100))"
    by (simp add: parse_price_def float_of_str_def strip_def replace_char_empty_def
          a_circumflex_def pound_def is_space_def absfloatvalue_def ascii_lower_def number_def
          digitpart_def is_digit_def digit_val_def exponent_def scale10_def fraction_def)
  show "parse_price (CHR 0xC2 # CHR 0xA3 # ''51.77'') = Inr (Finite (5177 / 100))"
    by (simp add: parse_price_def float_of_str_def strip_def replace_char_empty_def
          a_circumflex_def pound_def is_space_def absfloatvalue_def ascii_lower_def number_def
          digitpart_def is_digit_def digit_val_def exponent_def scale10_def fraction_def)
next
  assume "CHR ''-'' \<notin> set t \<and> parse_price t = Inr p"
  then show "p = NaN \<or> non_negative p"
    using parse_price_nonneg [of t p] by simp
next
  assume "price_color_text b = Inr t1 \<and> parse_price t1 = Inl e"
  then have r: "block_records w b = []"
    using bad_price_no_record [of b t1 e w] by simp
  show "fst (process_books w n (bs1 @ b # bs2) s) = Inr ()"
    by (rule process_books_fst)
  show "all_books (snd (process_books w n (bs1 @ b # bs2) s)) =
          all_books (snd (process_books w n (bs1 @ bs2) s))"
    by (simp add: process_books_all_books r)
qed

theorem price_parsing_witness:
  "CHR ''-'' \<notin> set (CHR 0xA3 # ''51.77'') \<and>
   parse_price (CHR 0xA3 # ''51.77'') = Inr (Finite (5177 / 100)) \<and>
   non_negative (Finite (5177 / 100)) \<and>
   price_color_text block_bad_price = Inr (CHR 0xA3 # ''N/A'') \<and>
   parse_price (CHR 0xA3 # ''N/A'') = Inl (float_error ''N/A'') \<and>
   fst (process_books world_ok 1 ([block_ok] @ block_bad_price # [block_ok]) state0) = Inr () \<and>
   all_books (snd (process_books world_ok 1 ([block_ok] @ block_bad_price # [block_ok]) state0)) =
     all_books (snd (process_books world_ok 1 ([block_ok] @ [block_ok]) state0))"
proof -
  have h1: "CHR ''-'' \<notin> set (CHR 0xA3 # ''51.77'')" by simp
  have h2: "price_color_text block_bad_price = Inr (CHR 0xA3 # ''N/A'')"
    by (simp add: block_bad_price_def)
  have h3: "parse_price (CHR 0xA3 # ''N/A'') = Inl (float_error ''N/A'')"
    by code_simp
  show ?thesis
    using h1 h2 h3
      price_parsing [of "CHR 0xA3 # ''51.77''" "Finite (5177 / 100)" block_bad_price
                        "CHR 0xA3 # ''N/A''" "float_error ''N/A''" world_ok 1 "[block_ok]"
                        "[block_ok]" state0]
    by simp
qed

subsection \<open>The tabular writer\<close>

text \<open>
  Claim C3, as stated, fails: \<open>save_to_csv\<close> opens the output file in mode \<open>"w"\<close> before
  it looks at the result set, so with an empty result set a file left by an earlier run loses
  its content.
\<close>

theorem empty_csv_truncates_existing_file:
  "all_books state_old_csv = [] \<and>
   files state_old_csv ''scraped_data/books_data.csv'' =
     Some (''title,price'' @ crlf @ ''Old,1.0'' @ crlf) \<and>
   files (snd (save_to_csv world_ok state_old_csv)) ''scraped_data/books_data.csv'' = Some []"
  by (simp add: state_old_csv_def state0_def save_to_csv_def save_to_csv_try_def
        world_ok_def os_path_join_def output_dir_def Let_def)

text \<open>
  Claim C3, amended. When the tabular writer is called with an empty result set and the
  output file can be opened, it returns, logs the warning and writes no row: the output file
  exists and is empty afterwards (a file that was there has lost its content), every other
  file is as before, and the result set is unchanged.
\<close>

theorem save_to_csv_empty:
  assumes "all_books s = []"
    and "open_w w (os_path_join output_dir ''books_data.csv'') = None"
  shows "fst (save_to_csv w s) = Inr () \<and>
         logs (snd (save_to_csv w s)) = logs s @ [(WARNING, ''No data to save to CSV'')] \<and>
         files (snd (save_to_csv w s)) =
           (files s)(os_path_join output_dir ''books_data.csv'' \<mapsto> []) \<and>
         all_books (snd (save_to_csv w s)) = all_books s"
  using assms by (simp add: save_to_csv_def save_to_csv_try_def Let_def)

theorem save_to_csv_empty_witness:
  "all_books state_old_csv = [] \<and>
   open_w world_ok (os_path_join output_dir ''books_data.csv'') = None \<and>
   fst (save_to_csv world_ok state_old_csv) = Inr () \<and>
   logs (snd (save_to_csv world_ok state_old_csv)) =
     logs state_old_csv @ [(WARNING, ''No data to save to CSV'')] \<and>
   files (snd (save_to_csv world_ok state_old_csv)) =
     (files state_old_csv)(os_path_join output_dir ''books_data.csv'' \<mapsto> [])"
proof -
  have h1: "all_books state_old_csv = []"
    by (simp add: state_old_csv_def state0_def)
  have h2: "open_w world_ok (os_path_join output_dir ''books_data.csv'') = None"
    by (simp add: world_ok_def)
  show ?thesis
    using h1 h2 save_to_csv_empty [OF h1 h2] by simp
qed

text \<open>
  Claim C4 at a failing input. Page 1 holds two items; the detail page of the first has no
  detail container, the detail page of the second is complete. The result set then holds a
  record of five fields followed by a record of ten. \<open>DictWriter\<close> raises on the second
  record, whose keys are not all in the header: the tabular output ends after the header and
  the first row, and the failure is the only ERROR line of the log. The fields of the second
  record are not dropped and its other fields are not written.
\<close>

theorem csv_fails_on_later_detail_fields:
  "map (map fst) (all_books (snd (run world_details_second_only 1 1 state0))) =
     [[''title'', ''price'', ''availability'', ''rating'', ''url''],
      [''title'', ''price'', ''availability'', ''rating'', ''url'',
       ''description'', ''upc'', ''product_type'', ''tax'', ''reviews'']] \<and>
   files (snd (run world_details_second_only 1 1 state0)) ''scraped_data/books_data.csv'' =
     Some (''title,price,availability,rating,url'' @ crlf @
           ''A Light in the Attic,51.77,In stock,Three,'' @
           ''https://books.toscrape.com/catalogue/a-light-in-the-attic_1000/index.html'' @ crlf) \<and>
   filter (\<lambda>l. fst l = ERROR) (logs (snd (run world_details_second_only 1 1 state0))) =
     [(ERROR, ''Failed to save CSV: dict contains fields not in fieldnames: '' @
              [CHR 0x27] @ ''description'' @ [CHR 0x27] @ '', '' @
              [CHR 0x27] @ ''upc'' @ [CHR 0x27] @ '', '' @
              [CHR 0x27] @ ''product_type'' @ [CHR 0x27] @ '', '' @
              [CHR 0x27] @ ''tax'' @ [CHR 0x27] @ '', '' @
              [CHR 0x27] @ ''reviews'' @ [CHR 0x27])]"
  by code_simp

subsection \<open>The structured-document writer\<close>

lemma join_occurs:
  "x \<in> set xs \<Longrightarrow> \<exists>pre post. ni @ join (c @ ni) xs = pre @ ni @ x @ post"
proof (induction "c @ ni" xs rule: join.induct)
  case 1
  then show ?case by simp
next
  case (2 y)
  then have "ni @ join (c @ ni) [y] = [] @ ni @ x @ []" by simp
  then show ?case by blast
next
  case (3 y z zs)
  show ?case
  proof (cases "x = y")
    case True
    then have "ni @ join (c @ ni) (y # z # zs) = [] @ ni @ x @ (c @ ni @ join (c @ ni) (z # zs))"
      by simp
    then show ?thesis by blast
  next
    case False
    then have "x \<in> set (z # zs)" using "3.prems" by simp
    then obtain pre post where "ni @ join (c @ ni) (z # zs) = pre @ ni @ x @ post"
      using "3.hyps" by blast
    then have "ni @ join (c @ ni) (y # z # zs) = (ni @ y @ c @ pre) @ ni @ x @ post"
      by simp
    then show ?thesis by blast
  qed
qed

lemma json_list_occurs:
  assumes "r \<in> set xs"
  shows "\<exists>pre post. json_dumps w xs = pre @ newline_indent 1 @ json_dict w 1 r @ post"
proof -
  have ne: "xs \<noteq> []" using assms by auto
  have "json_dict w 1 r \<in> set (map (json_dict w 1) xs)" using assms by simp
  then obtain pre post where
    "newline_indent 1 @ join ('','' @ newline_indent 1) (map (json_dict w 1) xs) =
       pre @ newline_indent 1 @ json_dict w 1 r @ post"
    using join_occurs by blast
  then have "json_dumps w xs =
               (''['' @ pre) @ newline_indent 1 @ json_dict w 1 r @ (post @ newline_indent 0 @ '']'')"
    using ne by (simp add: json_dumps_def json_list_def)
  then show ?thesis by blast
qed

lemma json_dict_occurs:
  assumes "kv \<in> set r"
  shows "\<exists>pre post. json_dict w lvl r = pre @ newline_indent (lvl + 1) @ json_item w kv @ post"
proof -
  have ne: "r \<noteq> []" using assms by auto
  have "json_item w kv \<in> set (map (json_item w) r)" using assms by simp
  then obtain pre post where
    "newline_indent (lvl + 1) @ join ('','' @ newline_indent (lvl + 1)) (map (json_item w) r) =
       pre @ newline_indent (lvl + 1) @ json_item w kv @ post"
    using join_occurs by blast
  then have "json_dict w lvl r =
               (''{'' @ pre) @ newline_indent (lvl + 1) @ json_item w kv @
               (post @ newline_indent lvl @ ''}'')"
    using ne by (simp add: json_dict_def)
  then show ?thesis by blast
qed

lemma json_escape_non_ascii:
  assumes "128 \<le> (of_char c :: nat)"
  shows "json_escape c = [c]"
proof -
  have "c \<noteq> CHR 0x22" "c \<noteq> CHR 0x5C" "c \<noteq> CHR 0x0A" "c \<noteq> CHR 0x0D"
       "c \<noteq> CHR 0x09" "c \<noteq> CHR 0x08" "c \<noteq> CHR 0x0C"
    using assms by auto
  moreover have "\<not> (of_char c :: nat) < 32" using assms by simp
  ultimately show ?thesis by (simp add: json_escape_def)
qed

lemma encode_basestring_non_ascii:
  assumes "\<forall>c \<in> set v. 128 \<le> (of_char c :: nat)"
  shows "encode_basestring v = [CHR 0x22] @ v @ [CHR 0x22]"
proof -
  have "concat (map json_escape v) = v"
    using assms by (induction v) (simp_all add: json_escape_non_ascii)
  then show ?thesis by (simp add: encode_basestring_def)
qed

lemma newline_indent_1: "newline_indent 1 = CHR 0x0A # ''    ''"
  by (simp add: newline_indent_def numeral_eq_Suc)

lemma newline_indent_2: "newline_indent (1 + 1) = CHR 0x0A # ''        ''"
  by (simp add: newline_indent_def numeral_eq_Suc)

lemma hex_digits: "map hex_digit [0..<16] = ''0123456789abcdef''"
  by code_simp

lemma hex_digit_nth:
  assumes "n < 16"
  shows "hex_digit n = ''0123456789abcdef'' ! n"
proof -
  have "''0123456789abcdef'' ! n = map hex_digit [0..<16] ! n"
    by (simp only: hex_digits)
  also have "\<dots> = hex_digit ([0..<16] ! n)"
    using assms by (intro nth_map) simp
  also have "[0..<16] ! n = n"
    using assms by simp
  finally show ?thesis by simp
qed

lemma json_escape_plain:
  assumes "32 \<le> (of_char c :: nat)" and "c \<noteq> CHR 0x22" and "c \<noteq> CHR 0x5C"
  shows "json_escape c = [c]"
proof -
  have "c \<noteq> CHR 0x0A" "c \<noteq> CHR 0x0D" "c \<noteq> CHR 0x09" "c \<noteq> CHR 0x08" "c \<noteq> CHR 0x0C"
    using assms(1) by auto
  moreover have "\<not> (of_char c :: nat) < 32" using assms(1) by simp
  ultimately show ?thesis using assms(2,3) by (simp add: json_escape_def)
qed

lemma json_escape_control:
  assumes "(of_char c :: nat) < 32"
    and "c \<noteq> CHR 0x0A" "c \<noteq> CHR 0x0D" "c \<noteq> CHR 0x09" "c \<noteq> CHR 0x08" "c \<noteq> CHR 0x0C"
  shows "json_escape c =
           [CHR 0x5C, CHR ''u'', CHR ''0'', CHR ''0'',
            ''0123456789abcdef'' ! (of_char c div 16), ''0123456789abcdef'' ! (of_char c mod 16)]"
proof -
  have "c \<noteq> CHR 0x22" "c \<noteq> CHR 0x5C" using assms(1) by auto
  moreover have "(of_char c :: nat) div 16 < 16" using assms(1) by simp
  moreover have "(of_char c :: nat) mod 16 < 16" by simp
  ultimately show ?thesis
    using assms by (simp add: json_escape_def hex_digit_nth)
qed

lemma encode_basestring_plain:
  assumes "\<forall>c \<in> set v. 32 \<le> (of_char c :: nat) \<and> c \<noteq> CHR 0x22 \<and> c \<noteq> CHR 0x5C"
  shows "encode_basestring v = [CHR 0x22] @ v @ [CHR 0x22]"
proof -
  have "concat (map json_escape v) = v"
    using assms by (induction v) (simp_all add: json_escape_plain)
  then show ?thesis by (simp add: encode_basestring_def)
qed

text \<open>
  Claim C9. When the output file can be opened, the structured-document writer returns and
  the file holds the serialization of the whole result set. For an empty result set this
  is the empty array \<open>[]\<close>. Otherwise it is \<open>[\<close>, the objects of the records in their
  order, each on a new line indented by 4 spaces and separated by commas, and a closing \<open>]\<close>
  on a line of its own. The object of a record is \<open>{\<close>, one item for each field of the
  record, detail fields included and whatever fields the other records have, each on a new
  line indented by 8 spaces and separated by commas, and \<open>}\<close> on a line indented by 4
  spaces. An item is the key between quotes, a colon and a space, and the value: a string
  between quotes, or the text of the float. Between the quotes, a key or a string value is
  written character by character: the quote and the backslash behind a backslash, the
  control characters below U+0020 as \<open>\n\<close>, \<open>\r\<close>, \<open>\t\<close>, \<open>\b\<close>, \<open>\f\<close> or
  \<open>\u00XX\<close>, and every other character, the non-ASCII ones included, as it is.
\<close>

theorem save_to_json_writes_all:
  assumes "open_w w (os_path_join output_dir ''books_data.json'') = None"
  shows "fst (save_to_json w s) = Inr () \<and>
         files (snd (save_to_json w s)) (os_path_join output_dir ''books_data.json'') =
           Some (json_dumps w (all_books s)) \<and>
         json_dumps w [] = ''[]'' \<and>
         (all_books s \<noteq> [] \<longrightarrow>
            json_dumps w (all_books s) =
              ''['' @ (CHR 0x0A # ''    '') @
              join ('','' @ CHR 0x0A # ''    '') (map (json_dict w 1) (all_books s)) @
              [CHR 0x0A] @ '']'') \<and>
         (all_books s \<noteq> [] \<longrightarrow>
            (\<exists>mid. json_dumps w (all_books s) = ''['' @ mid @ [CHR 0x0A] @ '']'')) \<and>
         (r \<in> set (all_books s) \<longrightarrow>
            (\<exists>pre post. json_dumps w (all_books s) =
                          pre @ (CHR 0x0A # ''    '') @ json_dict w 1 r @ post)) \<and>
         json_dict w 1 [] = ''{}'' \<and>
         (r \<noteq> [] \<longrightarrow>
            json_dict w 1 r =
              ''{'' @ (CHR 0x0A # ''        '') @
              join ('','' @ CHR 0x0A # ''        '') (map (json_item w) r) @
              (CHR 0x0A # ''    '') @ ''}'') \<and>
         (kv \<in> set r \<longrightarrow>
            (\<exists>pre post. json_dict w 1 r =
                          pre @ (CHR 0x0A # ''        '') @ json_item w kv @ post)) \<and>
         join sep [] = [] \<and>
         join sep [x] = x \<and>
         join sep (x # y # ys) = x @ sep @ join sep (y # ys) \<and>
         json_item w (k, VStr v) = encode_basestring k @ '': '' @ encode_basestring v \<and>
         json_item w (k, VFloat (Finite q)) = encode_basestring k @ '': '' @ float_repr w q \<and>
         json_item w (k, VFloat PosInf) = encode_basestring k @ '': Infinity'' \<and>
         json_item w (k, VFloat NegInf) = encode_basestring k @ '': -Infinity'' \<and>
         json_item w (k, VFloat NaN) = encode_basestring k @ '': NaN'' \<and>
         encode_basestring v = [CHR 0x22] @ concat (map json_escape v) @ [CHR 0x22] \<and>
         ((\<forall>c \<in> set (k @ v). 32 \<le> (of_char c :: nat) \<and> c \<noteq> CHR 0x22 \<and> c \<noteq> CHR 0x5C) \<longrightarrow>
            json_item w (k, VStr v) =
              [CHR 0x22] @ k @ [CHR 0x22] @ '': '' @ [CHR 0x22] @ v @ [CHR 0x22]) \<and>
         ((\<forall>c \<in> set v. 32 \<le> (of_char c :: nat) \<and> c \<noteq> CHR 0x22 \<and> c \<noteq> CHR 0x5C) \<longrightarrow>
            encode_basestring v = [CHR 0x22] @ v @ [CHR 0x22]) \<and>
         ((\<forall>c \<in> set v. 128 \<le> (of_char c :: nat)) \<longrightarrow>
            json_value w (VStr v) = [CHR 0x22] @ v @ [CHR 0x22]) \<and>
         (32 \<le> (of_char c :: nat) \<and> c \<noteq> CHR 0x22 \<and> c \<noteq> CHR 0x5C \<longrightarrow> json_escape c = [c]) \<and>
         json_escape (CHR 0x22) = [CHR 0x5C, CHR 0x22] \<and>
         json_escape (CHR 0x5C) = [CHR 0x5C, CHR 0x5C] \<and>
         json_escape (CHR 0x0A) = [CHR 0x5C, CHR ''n''] \<and>
         json_escape (CHR 0x0D) = [CHR 0x5C, CHR ''r''] \<and>
         json_escape (CHR 0x09) = [CHR 0x5C, CHR ''t''] \<and>
         json_escape (CHR 0x08) = [CHR 0x5C, CHR ''b''] \<and>
         json_escape (CHR 0x0C) = [CHR 0x5C, CHR ''f''] \<and>
         ((of_char d :: nat) < 32 \<and> d \<noteq> CHR 0x0A \<and> d \<noteq> CHR 0x0D \<and> d \<noteq> CHR 0x09 \<and>
          d \<noteq> CHR 0x08 \<and> d \<noteq> CHR 0x0C \<longrightarrow>
            json_escape d =
              [CHR 0x5C, CHR ''u'', CHR ''0'', CHR ''0'',
               ''0123456789abcdef'' ! (of_char d div 16),
               ''0123456789abcdef'' ! (of_char d mod 16)])"
proof (intro conjI impI)
  show "fst (save_to_json w s) = Inr ()" by (rule save_to_json_fst)
  show "files (snd (save_to_json w s)) (os_path_join output_dir ''books_data.json'') =
          Some (json_dumps w (all_books s))"
    using assms by (simp add: save_to_json_def save_to_json_try_def Let_def)
  show "json_dumps w [] = ''[]''" by (simp add: json_dumps_def json_list_def)
  show "json_dict w 1 [] = ''{}''" by (simp add: json_dict_def)
  show "join sep [] = []" by simp
  show "join sep [x] = x" by simp
  show "join sep (x # y # ys) = x @ sep @ join sep (y # ys)" by simp
  show "json_item w (k, VStr v) = encode_basestring k @ '': '' @ encode_basestring v"
    by (simp add: json_item_def json_value_def)
  show "json_item w (k, VFloat (Finite q)) = encode_basestring k @ '': '' @ float_repr w q"
    by (simp add: json_item_def json_value_def json_float_def)
  show "json_item w (k, VFloat PosInf) = encode_basestring k @ '': Infinity''"
    by (simp add: json_item_def json_value_def json_float_def)
  show "json_item w (k, VFloat NegInf) = encode_basestring k @ '': -Infinity''"
    by (simp add: json_item_def json_value_def json_float_def)
  show "json_item w (k, VFloat NaN) = encode_basestring k @ '': NaN''"
    by (simp add: json_item_def json_value_def json_float_def)
  show "encode_basestring v = [CHR 0x22] @ concat (map json_escape v) @ [CHR 0x22]"
    by (simp add: encode_basestring_def)
  show "json_escape (CHR 0x22) = [CHR 0x5C, CHR 0x22]" by (simp add: json_escape_def)
  show "json_escape (CHR 0x5C) = [CHR 0x5C, CHR 0x5C]" by (simp add: json_escape_def)
  show "json_escape (CHR 0x0A) = [CHR 0x5C, CHR ''n'']" by (simp add: json_escape_def)
  show "json_escape (CHR 0x0D) = [CHR 0x5C, CHR ''r'']" by (simp add: json_escape_def)
  show "json_escape (CHR 0x09) = [CHR 0x5C, CHR ''t'']" by (simp add: json_escape_def)
  show "json_escape (CHR 0x08) = [CHR 0x5C, CHR ''b'']" by (simp add: json_escape_def)
  show "json_escape (CHR 0x0C) = [CHR 0x5C, CHR ''f'']" by (simp add: json_escape_def)
next
  assume "all_books s \<noteq> []"
  then show "json_dumps w (all_books s) =
              ''['' @ (CHR 0x0A # ''    '') @
              join ('','' @ CHR 0x0A # ''    '') (map (json_dict w 1) (all_books s)) @
              [CHR 0x0A] @ '']''"
    by (simp add: json_dumps_def json_list_def newline_indent_def numeral_eq_Suc)
next
  assume "all_books s \<noteq> []"
  then have "json_dumps w (all_books s) =
               ''['' @ (newline_indent 1 @
                        join ('','' @ newline_indent 1) (map (json_dict w 1) (all_books s))) @
               [CHR 0x0A] @ '']''"
    by (simp add: json_dumps_def json_list_def newline_indent_def)
  then show "\<exists>mid. json_dumps w (all_books s) = ''['' @ mid @ [CHR 0x0A] @ '']''"
    by blast
next
  assume "r \<in> set (all_books s)"
  then show "\<exists>pre post. json_dumps w (all_books s) =
                          pre @ (CHR 0x0A # ''    '') @ json_dict w 1 r @ post"
    using json_list_occurs [of r "all_books s" w] by (simp only: newline_indent_1)
next
  assume "r \<noteq> []"
  then show "json_dict w 1 r =
              ''{'' @ (CHR 0x0A # ''        '') @
              join ('','' @ CHR 0x0A # ''        '') (map (json_item w) r) @
              (CHR 0x0A # ''    '') @ ''}''"
    by (simp add: json_dict_def newline_indent_def numeral_eq_Suc)
next
  assume "kv \<in> set r"
  then show "\<exists>pre post. json_dict w 1 r =
                          pre @ (CHR 0x0A # ''        '') @ json_item w kv @ post"
    using json_dict_occurs [of kv r w 1] by (simp only: newline_indent_2)
next
  assume a: "\<forall>c \<in> set (k @ v). 32 \<le> (of_char c :: nat) \<and> c \<noteq> CHR 0x22 \<and> c \<noteq> CHR 0x5C"
  then have "encode_basestring k = [CHR 0x22] @ k @ [CHR 0x22]"
    and "encode_basestring v = [CHR 0x22] @ v @ [CHR 0x22]"
    by (simp_all add: encode_basestring_plain)
  then show "json_item w (k, VStr v) =
               [CHR 0x22] @ k @ [CHR 0x22] @ '': '' @ [CHR 0x22] @ v @ [CHR 0x22]"
    by (simp add: json_item_def json_value_def)
next
  assume "\<forall>c \<in> set v. 32 \<le> (of_char c :: nat) \<and> c \<noteq> CHR 0x22 \<and> c \<noteq> CHR 0x5C"
  then show "encode_basestring v = [CHR 0x22] @ v @ [CHR 0x22]"
    by (rule encode_basestring_plain)
next
  assume "\<forall>c \<in> set v. 128 \<le> (of_char c :: nat)"
  then show "json_value w (VStr v) = [CHR 0x22] @ v @ [CHR 0x22]"
    by (simp add: json_value_def encode_basestring_non_ascii)
next
  assume "32 \<le> (of_char c :: nat) \<and> c \<noteq> CHR 0x22 \<and> c \<noteq> CHR 0x5C"
  then show "json_escape c = [c]" by (simp add: json_escape_plain)
next
  assume "(of_char d :: nat) < 32 \<and> d \<noteq> CHR 0x0A \<and> d \<noteq> CHR 0x0D \<and> d \<noteq> CHR 0x09 \<and>
          d \<noteq> CHR 0x08 \<and> d \<noteq> CHR 0x0C"
  then show "json_escape d =
              [CHR 0x5C, CHR ''u'', CHR ''0'', CHR ''0'',
               ''0123456789abcdef'' ! (of_char d div 16),
               ''0123456789abcdef'' ! (of_char d mod 16)]"
    by (simp add: json_escape_control)
qed

theorem save_to_json_writes_all_witness:
  "open_w world_ok (os_path_join output_dir ''books_data.json'') = None \<and>
   book_summary_only \<in> set (all_books state_two_books) \<and>
   (''title'', VStr (''Caf'' @ [CHR 0xE9])) \<in> set book_summary_only \<and>
   files (snd (save_to_json world_ok state_two_books)) (os_path_join output_dir ''books_data.json'') =
     Some (json_dumps world_ok (all_books state_two_books)) \<and>
   json_dumps world_ok (all_books state_two_books) =
     ''['' @ (CHR 0x0A # ''    '') @
     join ('','' @ CHR 0x0A # ''    '') (map (json_dict world_ok 1) (all_books state_two_books)) @
     [CHR 0x0A] @ '']'' \<and>
   (\<exists>pre post. json_dumps world_ok (all_books state_two_books) =
                 pre @ (CHR 0x0A # ''    '') @ json_dict world_ok 1 book_summary_only @ post) \<and>
   (\<exists>pre post. json_dict world_ok 1 book_summary_only =
                 pre @ (CHR 0x0A # ''        '') @
                 json_item world_ok (''title'', VStr (''Caf'' @ [CHR 0xE9])) @ post) \<and>
   json_item world_ok (''title'', VStr (''Caf'' @ [CHR 0xE9])) =
     [CHR 0x22] @ ''title'' @ [CHR 0x22] @ '': '' @ [CHR 0x22] @ (''Caf'' @ [CHR 0xE9]) @ [CHR 0x22] \<and>
   json_escape (CHR 0xE9) = [CHR 0xE9] \<and>
   json_escape (CHR 0x1F) = [CHR 0x5C, CHR ''u'', CHR ''0'', CHR ''0'', CHR ''1'', CHR ''f''] \<and>
   json_value world_ok (VStr [CHR 0xE9]) = [CHR 0x22] @ [CHR 0xE9] @ [CHR 0x22] \<and>
   json_dumps world_ok [book_summary_only] =
     ''['' @ [CHR 0x0A] @
     ''    {'' @ [CHR 0x0A] @
     ''        '' @ [CHR 0x22] @ ''title'' @ [CHR 0x22] @ '': '' @
       [CHR 0x22] @ ''Caf'' @ [CHR 0xE9] @ [CHR 0x22] @ '','' @ [CHR 0x0A] @
     ''        '' @ [CHR 0x22] @ ''price'' @ [CHR 0x22] @ '': 51.77,'' @ [CHR 0x0A] @
     ''        '' @ [CHR 0x22] @ ''availability'' @ [CHR 0x22] @ '': '' @
       [CHR 0x22] @ ''In stock'' @ [CHR 0x22] @ '','' @ [CHR 0x0A] @
     ''        '' @ [CHR 0x22] @ ''rating'' @ [CHR 0x22] @ '': '' @
       [CHR 0x22] @ ''Three'' @ [CHR 0x22] @ '','' @ [CHR 0x0A] @
     ''        '' @ [CHR 0x22] @ ''url'' @ [CHR 0x22] @ '': '' @
       [CHR 0x22] @ ''https://books.toscrape.com/catalogue/cafe_1/index.html'' @ [CHR 0x22] @
       [CHR 0x0A] @
     ''    }'' @ [CHR 0x0A] @ '']''"
proof -
  have h0: "open_w world_ok (os_path_join output_dir ''books_data.json'') = None"
    by (simp add: world_ok_def)
  have h1: "book_summary_only \<in> set (all_books state_two_books)"
    by (simp add: state_two_books_def)
  have h2: "(''title'', VStr (''Caf'' @ [CHR 0xE9])) \<in> set book_summary_only"
    by (simp add: book_summary_only_def)
  have h3: "\<forall>c \<in> set [CHR 0xE9]. 128 \<le> (of_char c :: nat)"
    by simp
  have h4: "all_books state_two_books \<noteq> []"
    by (simp add: state_two_books_def)
  have h5: "\<forall>c \<in> set (''title'' @ (''Caf'' @ [CHR 0xE9])).
              32 \<le> (of_char c :: nat) \<and> c \<noteq> CHR 0x22 \<and> c \<noteq> CHR 0x5C"
    by simp
  have h6: "32 \<le> (of_char (CHR 0xE9) :: nat) \<and> CHR 0xE9 \<noteq> CHR 0x22 \<and> CHR 0xE9 \<noteq> CHR 0x5C"
    by simp
  have h7: "(of_char (CHR 0x1F) :: nat) < 32 \<and> CHR 0x1F \<noteq> CHR 0x0A \<and> CHR 0x1F \<noteq> CHR 0x0D \<and>
            CHR 0x1F \<noteq> CHR 0x09 \<and> CHR 0x1F \<noteq> CHR 0x08 \<and> CHR 0x1F \<noteq> CHR 0x0C"
    by simp
  have h8: "json_dumps world_ok [book_summary_only] =
     ''['' @ [CHR 0x0A] @
     ''    {'' @ [CHR 0x0A] @
     ''        '' @ [CHR 0x22] @ ''title'' @ [CHR 0x22] @ '': '' @
       [CHR 0x22] @ ''Caf'' @ [CHR 0xE9] @ [CHR 0x22] @ '','' @ [CHR 0x0A] @
     ''        '' @ [CHR 0x22] @ ''price'' @ [CHR 0x22] @ '': 51.77,'' @ [CHR 0x0A] @
     ''        '' @ [CHR 0x22] @ ''availability'' @ [CHR 0x22] @ '': '' @
       [CHR 0x22] @ ''In stock'' @ [CHR 0x22] @ '','' @ [CHR 0x0A] @
     ''        '' @ [CHR 0x22] @ ''rating'' @ [CHR 0x22] @ '': '' @
       [CHR 0x22] @ ''Three'' @ [CHR 0x22] @ '','' @ [CHR 0x0A] @
     ''        '' @ [CHR 0x22] @ ''url'' @ [CHR 0x22] @ '': '' @
       [CHR 0x22] @ ''https://books.toscrape.com/catalogue/cafe_1/index.html'' @ [CHR 0x22] @
       [CHR 0x0A] @
     ''    }'' @ [CHR 0x0A] @ '']''"
    by code_simp
  note T = save_to_json_writes_all
             [OF h0, where s = state_two_books and r = book_summary_only
                and kv = "(''title'', VStr (''Caf'' @ [CHR 0xE9]))" and k = "''title''"
                and c = "CHR 0xE9" and d = "CHR 0x1F" and sep = "'',''" and x = "''a''"
                and y = "''b''" and ys = "[]" and q = "5177 / 100"
                and v = "''Caf'' @ [CHR 0xE9]"]
  note U = save_to_json_writes_all
             [OF h0, where s = state_two_books and r = book_summary_only
                and kv = "(''title'', VStr (''Caf'' @ [CHR 0xE9]))" and k = "''title''"
                and c = "CHR 0xE9" and d = "CHR 0x1F" and sep = "'',''" and x = "''a''"
                and y = "''b''" and ys = "[]" and q = "5177 / 100"
                and v = "[CHR 0xE9]"]
  note tr1 = T [THEN conjunct2]
  note tr2 = tr1 [THEN conjunct2]
  note tr3 = tr2 [THEN conjunct2]
  note tr4 = tr3 [THEN conjunct2]
  note tr5 = tr4 [THEN conjunct2]
  note tr6 = tr5 [THEN conjunct2]
  note tr7 = tr6 [THEN conjunct2]
  note tr8 = tr7 [THEN conjunct2]
  note tr9 = tr8 [THEN conjunct2]
  note tr10 = tr9 [THEN conjunct2]
  note tr11 = tr10 [THEN conjunct2]
  note tr12 = tr11 [THEN conjunct2]
  note tr13 = tr12 [THEN conjunct2]
  note tr14 = tr13 [THEN conjunct2]
  note tr15 = tr14 [THEN conjunct2]
  note tr16 = tr15 [THEN conjunct2]
  note tr17 = tr16 [THEN conjunct2]
  note tr18 = tr17 [THEN conjunct2]
  note tr19 = tr18 [THEN conjunct2]
  note tr20 = tr19 [THEN conjunct2]
  note tr21 = tr20 [THEN conjunct2]
  note tr22 = tr21 [THEN conjunct2]
  note tr23 = tr22 [THEN conjunct2]
  note tr24 = tr23 [THEN conjunct2]
  note tr25 = tr24 [THEN conjunct2]
  note tr26 = tr25 [THEN conjunct2]
  note tr27 = tr26 [THEN conjunct2]
  note tr28 = tr27 [THEN conjunct2]
  note tr29 = tr28 [THEN conjunct2]
  note ur1 = U [THEN conjunct2]
  note ur2 = ur1 [THEN conjunct2]
  note ur3 = ur2 [THEN conjunct2]
  note ur4 = ur3 [THEN conjunct2]
  note ur5 = ur4 [THEN conjunct2]
  note ur6 = ur5 [THEN conjunct2]
  note ur7 = ur6 [THEN conjunct2]
  note ur8 = ur7 [THEN conjunct2]
  note ur9 = ur8 [THEN conjunct2]
  note ur10 = ur9 [THEN conjunct2]
  note ur11 = ur10 [THEN conjunct2]
  note ur12 = ur11 [THEN conjunct2]
  note ur13 = ur12 [THEN conjunct2]
  note ur14 = ur13 [THEN conjunct2]
  note ur15 = ur14 [THEN conjunct2]
  note ur16 = ur15 [THEN conjunct2]
  note ur17 = ur16 [THEN conjunct2]
  note ur18 = ur17 [THEN conjunct2]
  note ur19 = ur18 [THEN conjunct2]
  note ur20 = ur19 [THEN conjunct2]
  note c2 = tr1 [THEN conjunct1]
  note c4 = tr3 [THEN conjunct1, THEN mp, OF h4]
  note c6 = tr5 [THEN conjunct1, THEN mp, OF h1]
  note c9 = tr8 [THEN conjunct1, THEN mp, OF h2]
  note c19 = tr18 [THEN conjunct1, THEN mp, OF h5]
  note c22 = tr21 [THEN conjunct1, THEN mp, OF h6]
  note c30 = tr29 [THEN mp, OF h7]
  note e2 = ur20 [THEN conjunct1, THEN mp, OF h3]
  have e1: "json_escape (CHR 0x1F) = [CHR 0x5C, CHR ''u'', CHR ''0'', CHR ''0'', CHR ''1'', CHR ''f'']"
    using c30 by simp
  show ?thesis
    by (intro conjI) (rule h0 h1 h2 c2 c4 c6 c9 c19 c22 e1 e2 h8)+
qed

subsection \<open>Detail extraction\<close>





end
